theory Spec2Isabelle
  imports Main "HOL-Library.Finite_Map"
begin

section \<open>Python values and strings\<close>

text \<open>
  A Python \<open>str\<close> is a sequence of Unicode code points. A code point is a natural
  number (what \<open>ord\<close> returns), a string is a list of them, and \<open>str\<close> turns a
  literal of the source into such a list.
\<close>

type_synonym pystr = "nat list"

definition str :: "string \<Rightarrow> pystr" where
  "str s = map of_char s"

text \<open>
  The values a JSON attribute of a metadata object holds: \<open>null\<close>, a boolean, an
  integer or a string. (Arrays, objects and floats as attribute values are not modelled.)
\<close>

datatype pyval = PNone | PBool bool | PInt int | PStr pystr

text \<open>Truthiness, as \<open>if x:\<close>, \<open>not x\<close> and \<open>while x:\<close> decide it.\<close>

fun truthy :: "pyval \<Rightarrow> bool" where
  "truthy PNone = False"
| "truthy (PBool b) = b"
| "truthy (PInt i) = (i \<noteq> 0)"
| "truthy (PStr s) = (s \<noteq> [])"

text \<open>Decimal digits of a natural number, most significant first.\<close>

function digits :: "nat \<Rightarrow> pystr" where
  "digits n = (if n < 10 then [48 + n] else digits (n div 10) @ [48 + n mod 10])"
  by pat_completeness auto
termination
  by (relation "measure id") auto

declare digits.simps [simp del]

text \<open>\<open>str(x)\<close>, which is what an f-string puts in place of \<open>{x}\<close>.\<close>

fun py_str :: "pyval \<Rightarrow> pystr" where
  "py_str PNone = str ''None''"
| "py_str (PBool b) = (if b then str ''True'' else str ''False'')"
| "py_str (PInt i) = (if i < 0 then 45 # digits (nat (- i)) else digits (nat i))"
| "py_str (PStr s) = s"

text \<open>
  \<open>s.encode('utf-8')\<close>, and \<open>print\<close> on a standard output that encodes as UTF-8,
  raise \<open>UnicodeEncodeError\<close> when the string holds a lone surrogate (a code point from
  U+D800 to U+DFFF), and encode every other string. The JSON decoder yields such a code
  point for an escaped lone surrogate in a string value.
\<close>

definition surrogate :: "nat \<Rightarrow> bool" where
  "surrogate c = (55296 \<le> c \<and> c \<le> 57343)"

definition encodable :: "pystr \<Rightarrow> bool" where
  "encodable s = list_all (\<lambda>c. \<not> surrogate c) s"

section \<open>The name sanitizer\<close>

text \<open>
  \<open>str.isalnum\<close> on one character. On ASCII it holds of the digits and the letters;
  beyond ASCII it is decided by the Unicode character database, which is a parameter
  \<open>ua\<close> of the model.
\<close>

definition ascii_alnum :: "nat \<Rightarrow> bool" where
  "ascii_alnum c = ((48 \<le> c \<and> c \<le> 57) \<or> (65 \<le> c \<and> c \<le> 90) \<or> (97 \<le> c \<and> c \<le> 122))"

definition isalnum :: "(nat \<Rightarrow> bool) \<Rightarrow> nat \<Rightarrow> bool" where
  "isalnum ua c = (if c < 128 then ascii_alnum c else ua c)"

text \<open>
  The characters \<open>str.rstrip()\<close> removes when it is called without an argument: the
  Unicode white space characters.
\<close>

definition isspace :: "nat \<Rightarrow> bool" where
  "isspace c = ((9 \<le> c \<and> c \<le> 13) \<or> (28 \<le> c \<and> c \<le> 32) \<or> c = 133 \<or> c = 160
     \<or> c = 5760 \<or> (8192 \<le> c \<and> c \<le> 8202) \<or> c = 8232 \<or> c = 8233 \<or> c = 8239
     \<or> c = 8287 \<or> c = 12288)"

definition rstrip :: "pystr \<Rightarrow> pystr" where
  "rstrip s = rev (dropWhile isspace (rev s))"

text \<open>The test of the generator expression: \<open>c.isalnum() or c in (' ', '.', '_', '-')\<close>.\<close>

definition kept :: "(nat \<Rightarrow> bool) \<Rightarrow> nat \<Rightarrow> bool" where
  "kept ua c = (isalnum ua c \<or> c = 32 \<or> c = 46 \<or> c = 95 \<or> c = 45)"

definition sanitize_char :: "(nat \<Rightarrow> bool) \<Rightarrow> nat \<Rightarrow> nat" where
  "sanitize_char ua c = (if kept ua c then c else 95)"

text \<open>
  \<open>sanitize_name\<close> on a string: \<open>"".join(c if ... else '_' for c in name).rstrip()\<close>.
\<close>

definition sanitize_str :: "(nat \<Rightarrow> bool) \<Rightarrow> pystr \<Rightarrow> pystr" where
  "sanitize_str ua name = rstrip (map (sanitize_char ua) name)"

text \<open>
  The exceptions of a run that nothing catches.
\<close>

datatype exn = TypeError | UnicodeEncodeError | ValueError | OSError pystr | OtherError pystr

text \<open>
  \<open>sanitize_name\<close> on any value: iterating over \<open>None\<close>, a boolean or an integer
  raises \<open>TypeError\<close>.
\<close>

fun sanitize_name :: "(nat \<Rightarrow> bool) \<Rightarrow> pyval \<Rightarrow> exn + pystr" where
  "sanitize_name ua (PStr s) = Inr (sanitize_str ua s)"
| "sanitize_name ua v = Inl TypeError"

section \<open>Requests, responses and the world\<close>

text \<open>
  A JSON document that the program builds itself (the query filter). A Python \<open>dict\<close>
  is a finite map: two dicts are equal when they hold the same keys with the same values,
  whatever the order they were written in.
\<close>

datatype json = JString pystr | JArray "json list" | JObject "(pystr, json) fmap"

text \<open>A dict literal \<open>{k1: v1, ...}\<close> with string keys.\<close>

definition dict :: "(string \<times> json) list \<Rightarrow> json" where
  "dict kvs = JObject (fmap_of_list (map (\<lambda>(k, v). (str k, v)) kvs))"

datatype http_method = POST | GET | OtherMethod pystr

datatype body = NoBody | JsonBody json | DataBody pystr

text \<open>
  One call of \<open>requests.post\<close> or \<open>requests.get\<close>: the URL, the \<open>auth\<close> pair, the
  headers, and the body (\<open>json=\<close> or \<open>data=\<close>).
\<close>

record request =
  verb :: http_method
  url :: pystr
  auth :: "pystr \<times> pystr option"
  headers :: "(pystr \<times> pystr) list"
  payload :: body

text \<open>
  One metadata object of a \<open>result\<close> list. Each attribute the program reads is
  \<open>None\<close> when the key is absent and \<open>Some v\<close> when it is present with value \<open>v\<close>
  (\<open>Some PNone\<close> is a key present with \<open>null\<close>).
\<close>

record meta =
  m_componentId :: "pyval option"
  m_name :: "pyval option"
  m_version :: "pyval option"
  m_type :: "pyval option"
  m_folderName :: "pyval option"

text \<open>\<open>d.get(key)\<close> and \<open>d.get(key, default)\<close> on an attribute.\<close>

definition dict_get :: "pyval option \<Rightarrow> pyval" where
  "dict_get a = (case a of None \<Rightarrow> PNone | Some v \<Rightarrow> v)"

definition dict_get_default :: "pyval option \<Rightarrow> pyval \<Rightarrow> pyval" where
  "dict_get_default a d = (case a of None \<Rightarrow> d | Some v \<Rightarrow> v)"

text \<open>
  What \<open>response.json()\<close> returns for a query: \<open>p_result\<close> is \<open>None\<close> when the
  object has no \<open>result\<close> key (an empty or \<open>null\<close> document has none), \<open>p_queryToken\<close>
  is \<open>None\<close> when it has no \<open>queryToken\<close> key. The document is taken to be what the
  API documents: an object whose \<open>result\<close>, when present, is a list of objects.
\<close>

record page =
  p_result :: "meta list option"
  p_queryToken :: "pyval option"

text \<open>
  A response with a 2xx status: its \<open>.text\<close> and its \<open>.json()\<close>. The text of a
  response, like the text of an error, comes out of a decoder of the library and holds
  no lone surrogate: printing it and writing it to a file do not raise.
\<close>

record response =
  r_text :: pystr
  r_json :: page

text \<open>
  How one HTTP call ends: a response; \<open>raise_for_status\<close> raising \<open>HTTPError\<close> on a
  4xx or 5xx status (the error's text and the response's \<open>.text\<close>); the transport
  raising another \<open>RequestException\<close> (its text); or the call, or the decoding of its
  answer, raising an exception that is no \<open>RequestException\<close> and that the source
  therefore does not catch.
\<close>

datatype http_outcome =
    Response response
  | HTTPError pystr pystr
  | RequestException pystr
  | OtherException exn

text \<open>
  How \<open>open(path, 'w')\<close> followed by \<open>f.write(content)\<close> ends for a path that
  \<open>open\<close> accepts: written; \<open>open\<close> raising an \<open>OSError\<close> (its text; nothing changes
  on disk); or \<open>write\<close> raising an \<open>OSError\<close> after the file was created or truncated
  (its text and what reached the disk).
\<close>

datatype write_outcome = Written | OpenFailed pystr | WriteFailed pystr pystr

text \<open>
  Everything the program does not decide itself is a parameter: the Unicode table behind
  \<open>str.isalnum\<close>; the remote API, which may answer a request differently depending on
  the requests sent before it; the failures of the file system; and the file or directory
  that the file system takes a path string to (two strings with the same value under
  \<open>resolve\<close> are one file or one directory).
\<close>

record env =
  unicode_alnum :: "nat \<Rightarrow> bool"
  http :: "request list \<Rightarrow> request \<Rightarrow> http_outcome"
  makedirs_error :: "pystr \<Rightarrow> pystr option"
  write_result :: "pystr \<Rightarrow> pystr \<Rightarrow> write_outcome"
  resolve :: "pystr \<Rightarrow> pystr"

text \<open>
  One constructor for each \<open>print\<close> of the source, holding the values its f-string
  interpolates.
\<close>

datatype msg =
    Unsupported_method pystr
  | Http_error pystr
  | Response_content pystr
  | Request_error pystr
  | Fetching_metadata
  | Initial_failed
  | Retrieved nat
  | Page_http_error pystr
  | Page_request_error pystr
  | Page_failed
  | Total_found nat
  | Null_id
  | Component_http_error pyval pystr
  | Component_request_error pyval pystr
  | Env_missing
  | Env_hint
  | Created_export_directory pystr
  | No_components
  | Starting_export
  | Skipping nat nat pyval meta
  | Exporting nat nat pyval pyval pyval
  | Type_folder pyval pyval
  | Mkdir_error pystr pystr
  | Saved pystr
  | Write_error pystr pystr
  | Definition_failed pyval
  | Export_complete

text \<open>
  Whether \<open>print\<close> can encode a line. The lines that can fail are those that
  interpolate a string taken from the JSON of the API: an attribute of a metadata object,
  or a path built from such attributes. (The \<open>{comp_meta}\<close> of the skip line is the
  \<open>repr\<close> of the dict, which escapes a lone surrogate.)
\<close>

fun printable :: "msg \<Rightarrow> bool" where
  "printable (Skipping i n name comp_meta) = encodable (py_str name)"
| "printable (Exporting i n name version component_id) =
     (encodable (py_str name) \<and> encodable (py_str version) \<and> encodable (py_str component_id))"
| "printable (Type_folder component_type folder_name) =
     (encodable (py_str component_type) \<and> encodable (py_str folder_name))"
| "printable (Mkdir_error path err) = encodable path"
| "printable (Saved path) = encodable path"
| "printable (Write_error path err) = encodable path"
| "printable (Definition_failed component_id) = encodable (py_str component_id)"
| "printable (Component_http_error component_id err) = encodable (py_str component_id)"
| "printable (Component_request_error component_id err) = encodable (py_str component_id)"
| "printable (Unsupported_method m) = encodable m"
| "printable m = True"

text \<open>
  The state a run changes: the requests sent so far, the directories and files on disk
  (each under the value \<open>resolve\<close> gives its path), and the console.
\<close>

record world =
  sent :: "request list"
  dirs :: "pystr set"
  files :: "pystr \<rightharpoonup> pystr"
  out :: "msg list"

definition say :: "msg \<Rightarrow> world \<Rightarrow> world" where
  "say m w = w\<lparr>out := out w @ [m]\<rparr>"

definition send :: "request \<Rightarrow> world \<Rightarrow> world" where
  "send rq w = w\<lparr>sent := sent w @ [rq]\<rparr>"

text \<open>
  A call either returns a value (\<open>Done\<close>) or ends in an exception that nothing catches
  (\<open>Raised\<close>); both keep what was done until then. A call that returns nothing is an
  \<open>outcome\<close>, and \<open>and_then\<close> runs the next statement unless an exception is under
  way.
\<close>

datatype 'a result = Done 'a world | Raised exn world

type_synonym outcome = "unit result"

abbreviation Finished :: "world \<Rightarrow> outcome" where
  "Finished w \<equiv> Done () w"

definition and_then :: "'a result \<Rightarrow> ('a \<Rightarrow> world \<Rightarrow> 'b result) \<Rightarrow> 'b result" where
  "and_then r f = (case r of Raised x w \<Rightarrow> Raised x w | Done a w \<Rightarrow> f a w)"

text \<open>\<open>print\<close> of a line that may not be encodable.\<close>

definition print_line :: "msg \<Rightarrow> world \<Rightarrow> outcome" where
  "print_line m w = (if printable m then Finished (say m w) else Raised UnicodeEncodeError w)"

text \<open>The module's globals: the three \<open>os.getenv\<close> results and \<open>BASE_URL\<close>.\<close>

record globals =
  BOOMI_ACCOUNT_ID :: "pystr option"
  BOOMI_USERNAME :: "pystr option"
  BOOMI_API_TOKEN :: "pystr option"
  BASE_URL :: pystr

definition EXPORT_DIRECTORY :: pystr where
  "EXPORT_DIRECTORY = str ''boomi_export''"

text \<open>An f-string's \<open>{x}\<close> for an \<open>os.getenv\<close> result.\<close>

definition opt_str :: "pystr option \<Rightarrow> pystr" where
  "opt_str a = (case a of None \<Rightarrow> str ''None'' | Some s \<Rightarrow> s)"

definition basic_auth :: "globals \<Rightarrow> pystr \<times> pystr option" where
  "basic_auth g = (str ''BOOMI_TOKEN.'' @ opt_str (BOOMI_USERNAME g), BOOMI_API_TOKEN g)"

section \<open>The API client\<close>

text \<open>
  \<open>make_api_request\<close>. The source compares \<open>method.upper()\<close> with \<open>'POST'\<close> and
  \<open>'GET'\<close>; the model takes the result of that comparison, \<open>OtherMethod m\<close> standing
  for any other method \<open>m\<close>. The lines it prints for an error interpolate texts of the
  library only.
\<close>

definition make_api_request ::
  "env \<Rightarrow> globals \<Rightarrow> pystr \<Rightarrow> http_method \<Rightarrow> json option \<Rightarrow> world \<Rightarrow> page option result" where
  "make_api_request e g endpoint method_upper pl w =
     (let hs = [(str ''Accept'', str ''application/json''),
                (str ''Content-Type'', str ''application/json'')];
          rq = \<lparr>verb = method_upper, url = BASE_URL g @ endpoint, auth = basic_auth g,
                headers = hs,
                payload = (case method_upper of
                             POST \<Rightarrow> (case pl of None \<Rightarrow> NoBody | Some j \<Rightarrow> JsonBody j)
                           | _ \<Rightarrow> NoBody)\<rparr>
      in case method_upper of
           OtherMethod m \<Rightarrow>
             and_then (print_line (Unsupported_method m) w) (\<lambda>u w1. Done None w1)
         | _ \<Rightarrow>
           (case http e (sent w) rq of
              Response r \<Rightarrow> Done (Some (r_json r)) (send rq w)
            | HTTPError err txt \<Rightarrow>
                Done None (say (Response_content txt) (say (Http_error err) (send rq w)))
            | RequestException err \<Rightarrow> Done None (say (Request_error err) (send rq w))
            | OtherException x \<Rightarrow> Raised x (send rq w)))"

section \<open>The pagination driver\<close>

text \<open>The dict literal \<open>initial_payload\<close> of \<open>get_all_components\<close>.\<close>

definition initial_payload :: json where
  "initial_payload =
     dict [(''QueryFilter'',
       dict [(''expression'',
         dict [(''operator'', JString (str ''and'')),
               (''nestedExpression'', JArray
                  [dict [(''argument'', JArray [JString (str ''false'')]),
                         (''operator'', JString (str ''EQUALS'')),
                         (''property'', JString (str ''deleted''))],
                   dict [(''argument'', JArray [JString (str ''true'')]),
                         (''operator'', JString (str ''EQUALS'')),
                         (''property'', JString (str ''currentVersion''))]])])])]"

text \<open>The f-string \<open>more_payload_xml\<close> of the loop.\<close>

definition more_payload_xml :: "pyval \<Rightarrow> pystr" where
  \<open>more_payload_xml query_token =
     str ''<QueryMoreRequest xmlns="http://api.platform.boomi.com/api/rest/v1/"><queryToken>''
     @ py_str query_token @ str ''</queryToken></QueryMoreRequest>''\<close>

text \<open>The request the loop posts for one token.\<close>

definition more_request :: "globals \<Rightarrow> pyval \<Rightarrow> request" where
  "more_request g query_token =
     \<lparr>verb = POST, url = BASE_URL g @ str ''/ComponentMetadata/query'', auth = basic_auth g,
      headers = [(str ''Accept'', str ''application/json''),
                 (str ''Content-Type'', str ''application/xml'')],
      payload = DataBody (more_payload_xml query_token)\<rparr>"

text \<open>
  The \<open>while query_token:\<close> loop, from its test on. The argument of \<open>requests.post\<close>
  is \<open>more_payload_xml.encode('utf-8')\<close>: when it raises, no request is sent, and the
  \<open>except\<close> clauses, which name exceptions of \<open>requests\<close> only, do not catch the
  \<open>UnicodeEncodeError\<close>. The lines the loop prints interpolate numbers and texts of the
  library only. The remote API may hand out a token with every page, so the loop need
  not end: \<open>None\<close> is a run that never leaves it.
\<close>

partial_function (option) query_more ::
  "env \<Rightarrow> globals \<Rightarrow> pyval \<Rightarrow> meta list \<Rightarrow> world \<Rightarrow> meta list result option" where
  "query_more e g query_token all_components w =
     (if \<not> truthy query_token then Some (Done all_components w)
      else if \<not> encodable (more_payload_xml query_token) then Some (Raised UnicodeEncodeError w)
      else
        (case http e (sent w) (more_request g query_token) of
           HTTPError err txt \<Rightarrow>
             Some (Done all_components
                   (say (Response_content txt) (say (Page_http_error err)
                     (send (more_request g query_token) w))))
         | RequestException err \<Rightarrow>
             Some (Done all_components
                   (say (Page_request_error err) (send (more_request g query_token) w)))
         | OtherException x \<Rightarrow> Some (Raised x (send (more_request g query_token) w))
         | Response r \<Rightarrow>
             (case p_result (r_json r) of
                None \<Rightarrow>
                  Some (Done all_components
                          (say Page_failed (send (more_request g query_token) w)))
              | Some res \<Rightarrow>
                  query_more e g (dict_get (p_queryToken (r_json r))) (all_components @ res)
                    (say (Retrieved (length (all_components @ res)))
                       (send (more_request g query_token) w)))))"

definition get_all_components :: "env \<Rightarrow> globals \<Rightarrow> world \<Rightarrow> meta list result option" where
  "get_all_components e g w =
     (case make_api_request e g (str ''/ComponentMetadata/query'') POST (Some initial_payload)
             (say Fetching_metadata w) of
        Raised x w1 \<Rightarrow> Some (Raised x w1)
      | Done None w1 \<Rightarrow> Some (Done [] (say Initial_failed w1))
      | Done (Some response) w1 \<Rightarrow>
          (case p_result response of
             None \<Rightarrow> Some (Done [] (say Initial_failed w1))
           | Some res \<Rightarrow>
               (case query_more e g (dict_get (p_queryToken response)) res
                       (say (Retrieved (length res)) w1) of
                  None \<Rightarrow> None
                | Some (Raised x w2) \<Rightarrow> Some (Raised x w2)
                | Some (Done all_components w2) \<Rightarrow>
                    Some (Done all_components (say (Total_found (length all_components)) w2)))))"

section \<open>Fetching one component\<close>

definition component_request :: "globals \<Rightarrow> pyval \<Rightarrow> request" where
  "component_request g component_id =
     \<lparr>verb = GET, url = BASE_URL g @ (str ''/Component/'' @ py_str component_id),
      auth = basic_auth g, headers = [(str ''Accept'', str ''application/xml'')],
      payload = NoBody\<rparr>"

definition get_component_definition ::
  "env \<Rightarrow> globals \<Rightarrow> pyval \<Rightarrow> world \<Rightarrow> pystr option result" where
  "get_component_definition e g component_id w =
     (if \<not> truthy component_id then Done None (say Null_id w)
      else
        (case http e (sent w) (component_request g component_id) of
           Response r \<Rightarrow> Done (Some (r_text r)) (send (component_request g component_id) w)
         | HTTPError err txt \<Rightarrow>
             and_then (print_line (Component_http_error component_id err)
                         (send (component_request g component_id) w))
               (\<lambda>u w1. Done None w1)
         | RequestException err \<Rightarrow>
             and_then (print_line (Component_request_error component_id err)
                         (send (component_request g component_id) w))
               (\<lambda>u w1. Done None w1)
         | OtherException x \<Rightarrow> Raised x (send (component_request g component_id) w)))"

section \<open>The export walker\<close>

text \<open>
  The file system calls, on a POSIX system: \<open>os.sep\<close> is \<open>/\<close> (code point 47) and
  \<open>os.path.join\<close> is \<open>posixpath.join\<close>.
\<close>

definition os_sep :: nat where
  "os_sep = 47"

definition path_join :: "pystr \<Rightarrow> pystr \<Rightarrow> pystr" where
  "path_join a b =
     (if b \<noteq> [] \<and> hd b = os_sep then b
      else if a = [] \<or> last a = os_sep then a @ b
      else a @ [os_sep] @ b)"

text \<open>\<open>os.path.exists\<close>: a directory or a file is there under what the path resolves to.\<close>

definition path_exists :: "env \<Rightarrow> world \<Rightarrow> pystr \<Rightarrow> bool" where
  "path_exists e w p = (resolve e p \<in> dirs w \<or> files w (resolve e p) \<noteq> None)"

text \<open>
  The directories that are there after \<open>os.makedirs(p)\<close> has returned: \<open>p\<close> and
  the directories above it, which are the prefixes of \<open>p\<close> that end before a separator.
\<close>

definition made_by_makedirs :: "env \<Rightarrow> pystr \<Rightarrow> pystr set" where
  "made_by_makedirs e p =
     resolve e ` (set (map (\<lambda>k. take k p) (filter (\<lambda>k. p ! k = os_sep) [1..<length p])) \<union> {p})"

text \<open>\<open>s.replace(old, new)\<close> for one-character \<open>old\<close> and \<open>new\<close>.\<close>

definition replace_char :: "nat \<Rightarrow> nat \<Rightarrow> pystr \<Rightarrow> pystr" where
  "replace_char old new s = map (\<lambda>c. if c = old then new else c) s"

text \<open>The f-string \<open>file_name\<close>.\<close>

definition file_name :: "pystr \<Rightarrow> pyval \<Rightarrow> pyval \<Rightarrow> pystr" where
  "file_name sanitized_name version component_id =
     sanitized_name @ str ''_v'' @ py_str version @ str ''_'' @ py_str component_id @ str ''.xml''"

text \<open>
  The \<open>try\<close> block that writes the file, given the path. \<open>open\<close> raises
  \<open>ValueError\<close> on a path that holds a NUL character (code point 0), before it asks
  the file system; \<open>except IOError\<close>, which is \<open>except OSError\<close>, does not catch it.
\<close>

definition write_file :: "env \<Rightarrow> pystr \<Rightarrow> pystr \<Rightarrow> world \<Rightarrow> outcome" where
  "write_file e file_path component_xml w =
     (if 0 \<in> set file_path then Raised ValueError w
      else
        (case write_result e file_path component_xml of
           Written \<Rightarrow>
             print_line (Saved file_path)
               (w\<lparr>files := (files w)(resolve e file_path \<mapsto> component_xml)\<rparr>)
         | OpenFailed err \<Rightarrow> print_line (Write_error file_path err) w
         | WriteFailed err part \<Rightarrow>
             print_line (Write_error file_path err)
               (w\<lparr>files := (files w)(resolve e file_path \<mapsto> part)\<rparr>)))"

text \<open>
  The part of the loop body after the directory is there: fetch the definition and
  save it.
\<close>

definition fetch_and_save ::
  "env \<Rightarrow> globals \<Rightarrow> pyval \<Rightarrow> pyval \<Rightarrow> pyval \<Rightarrow> pystr \<Rightarrow> world \<Rightarrow> outcome" where
  "fetch_and_save e g component_id component_name version local_folder_path w =
     and_then (get_component_definition e g component_id w)
       (\<lambda>component_xml w1.
          case component_xml of
            Some xml \<Rightarrow>
              (if xml \<noteq> [] then
                 (case sanitize_name (unicode_alnum e) component_name of
                    Inl x \<Rightarrow> Raised x w1
                  | Inr sanitized_name \<Rightarrow>
                      write_file e
                        (path_join local_folder_path
                           (file_name sanitized_name version component_id))
                        xml w1)
               else print_line (Definition_failed component_id) w1)
          | None \<Rightarrow> print_line (Definition_failed component_id) w1)"

text \<open>
  The body of the \<open>for\<close> loop for the record at index \<open>i\<close> of \<open>n\<close>. \<open>continue\<close> and
  the end of the body are both \<open>Finished\<close>.
\<close>

definition export_component :: "env \<Rightarrow> globals \<Rightarrow> nat \<Rightarrow> nat \<Rightarrow> meta \<Rightarrow> world \<Rightarrow> outcome" where
  "export_component e g n i comp_meta w =
     (let component_id = dict_get (m_componentId comp_meta);
          component_name = dict_get_default (m_name comp_meta) (PStr (str ''Unnamed Component''));
          version = dict_get (m_version comp_meta)
      in if \<not> truthy component_id
         then print_line (Skipping (i + 1) n component_name comp_meta) w
         else
           (let component_type = dict_get (m_type comp_meta);
                folder_name = dict_get_default (m_folderName comp_meta) (PStr (str ''No Folder''))
            in and_then (print_line (Exporting (i + 1) n component_name version component_id) w)
                 (\<lambda>u w0. and_then (print_line (Type_folder component_type folder_name) w0)
                   (\<lambda>u w1.
                      case sanitize_name (unicode_alnum e) folder_name of
                        Inl x \<Rightarrow> Raised x w1
                      | Inr sanitized_folder \<Rightarrow>
                          (let local_folder_path =
                                 path_join EXPORT_DIRECTORY
                                   (replace_char 47 os_sep sanitized_folder)
                           in if \<not> path_exists e w1 local_folder_path
                              then
                                (case makedirs_error e local_folder_path of
                                   Some err \<Rightarrow>
                                     print_line (Mkdir_error local_folder_path err) w1
                                 | None \<Rightarrow>
                                     fetch_and_save e g component_id component_name version
                                       local_folder_path
                                       (w1\<lparr>dirs := made_by_makedirs e local_folder_path
                                                       \<union> dirs w1\<rparr>))
                              else fetch_and_save e g component_id component_name version
                                     local_folder_path w1)))))"

text \<open>The \<open>for i, comp_meta in enumerate(components)\<close> loop, from index \<open>i\<close> on.\<close>

fun export_loop :: "env \<Rightarrow> globals \<Rightarrow> nat \<Rightarrow> nat \<Rightarrow> meta list \<Rightarrow> world \<Rightarrow> outcome" where
  "export_loop e g n i [] w = Finished w"
| "export_loop e g n i (comp_meta # rest) w =
     and_then (export_component e g n i comp_meta w)
       (\<lambda>u w1. export_loop e g n (Suc i) rest w1)"

section \<open>The main function\<close>

text \<open>The truth value of an \<open>os.getenv\<close> result: \<open>None\<close> and \<open>""\<close> are false.\<close>

definition env_truthy :: "pystr option \<Rightarrow> bool" where
  "env_truthy a = (case a of None \<Rightarrow> False | Some s \<Rightarrow> s \<noteq> [])"

definition main :: "env \<Rightarrow> globals \<Rightarrow> world \<Rightarrow> outcome option" where
  "main e g w =
     (if \<not> list_all env_truthy [BOOMI_ACCOUNT_ID g, BOOMI_USERNAME g, BOOMI_API_TOKEN g]
      then Some (Finished (say Env_hint (say Env_missing w)))
      else
        (let g1 = g\<lparr>BASE_URL := str ''https://api.boomi.com/api/rest/v1/''
                                 @ opt_str (BOOMI_ACCOUNT_ID g)\<rparr>
         in case (if \<not> path_exists e w EXPORT_DIRECTORY
                  then (case makedirs_error e EXPORT_DIRECTORY of
                          Some err \<Rightarrow> Raised (OSError err) w
                        | None \<Rightarrow> Finished (say (Created_export_directory EXPORT_DIRECTORY)
                                    (w\<lparr>dirs := made_by_makedirs e EXPORT_DIRECTORY
                                                  \<union> dirs w\<rparr>)))
                  else Finished w) of
              Raised x w1 \<Rightarrow> Some (Raised x w1)
            | Done u w1 \<Rightarrow>
                (case get_all_components e g1 w1 of
                   None \<Rightarrow> None
                 | Some (Raised x w2) \<Rightarrow> Some (Raised x w2)
                 | Some (Done components w2) \<Rightarrow>
                     (if components = [] then Some (Finished (say No_components w2))
                      else
                        (case export_loop e g1 (length components) 0 components
                                (say Starting_export w2) of
                           Raised x w3 \<Rightarrow> Some (Raised x w3)
                         | Done u w3 \<Rightarrow> Some (Finished (say Export_complete w3)))))))"

section \<open>Derived notions used in the statements\<close>

text \<open>
  The request that \<open>make_api_request('/ComponentMetadata/query', method='POST',
  payload=initial_payload)\<close> builds: the first call of \<open>get_all_components\<close>.
\<close>

definition query_request :: "globals \<Rightarrow> request" where
  "query_request g =
     \<lparr>verb = POST, url = BASE_URL g @ str ''/ComponentMetadata/query'', auth = basic_auth g,
      headers = [(str ''Accept'', str ''application/json''),
                 (str ''Content-Type'', str ''application/json'')],
      payload = JsonBody initial_payload\<rparr>"

text \<open>
  The world a call leaves behind, however it ends; whether it ended in an exception; and
  the exception.
\<close>

fun world_of :: "'a result \<Rightarrow> world" where
  "world_of (Done a w) = w"
| "world_of (Raised x w) = w"

fun raised :: "'a result \<Rightarrow> bool" where
  "raised (Done a w) = False"
| "raised (Raised x w) = True"

fun exception_of :: "'a result \<Rightarrow> exn option" where
  "exception_of (Done a w) = None"
| "exception_of (Raised x w) = Some x"

text \<open>The globals after \<open>main\<close> has set \<open>BASE_URL\<close>.\<close>

definition with_base_url :: "globals \<Rightarrow> globals" where
  "with_base_url g =
     g\<lparr>BASE_URL := str ''https://api.boomi.com/api/rest/v1/'' @ opt_str (BOOMI_ACCOUNT_ID g)\<rparr>"

text \<open>
  The values of the loop body's variables \<open>local_folder_path\<close> and \<open>file_path\<close>
  for a record whose folder name is the string \<open>folder\<close> and whose name is the string
  \<open>name\<close>.
\<close>

definition local_folder_path :: "(nat \<Rightarrow> bool) \<Rightarrow> pystr \<Rightarrow> pystr" where
  "local_folder_path ua folder =
     path_join EXPORT_DIRECTORY (replace_char 47 os_sep (sanitize_str ua folder))"

definition file_path :: "(nat \<Rightarrow> bool) \<Rightarrow> pystr \<Rightarrow> pystr \<Rightarrow> pyval \<Rightarrow> pyval \<Rightarrow> pystr" where
  "file_path ua folder name version component_id =
     path_join (local_folder_path ua folder) (file_name (sanitize_str ua name) version component_id)"

text \<open>
  A record whose two opening lines (\<open>Exporting: ...\<close> and \<open>Type: ..., Folder: ...\<close>)
  can be printed: its name, version, id, type and folder name, as the f-strings write
  them, hold no lone surrogate. And the world after these two lines.
\<close>

definition announces :: "meta \<Rightarrow> bool" where
  "announces comp_meta =
     (printable (Exporting 0 0
        (dict_get_default (m_name comp_meta) (PStr (str ''Unnamed Component'')))
        (dict_get (m_version comp_meta)) (dict_get (m_componentId comp_meta)))
      \<and> printable (Type_folder (dict_get (m_type comp_meta))
           (dict_get_default (m_folderName comp_meta) (PStr (str ''No Folder'')))))"

definition announced :: "nat \<Rightarrow> nat \<Rightarrow> meta \<Rightarrow> world \<Rightarrow> world" where
  "announced n i comp_meta w =
     say (Type_folder (dict_get (m_type comp_meta))
            (dict_get_default (m_folderName comp_meta) (PStr (str ''No Folder''))))
       (say (Exporting (i + 1) n
               (dict_get_default (m_name comp_meta) (PStr (str ''Unnamed Component'')))
               (dict_get (m_version comp_meta)) (dict_get (m_componentId comp_meta))) w)"

text \<open>
  The world in which the document is fetched: the directory was there, or has just been
  made.
\<close>

definition with_directory :: "env \<Rightarrow> pystr \<Rightarrow> world \<Rightarrow> world" where
  "with_directory e dir w =
     (if path_exists e w dir then w else w\<lparr>dirs := made_by_makedirs e dir \<union> dirs w\<rparr>)"

text \<open>
  The world after \<open>main\<close> has made sure of the export directory, when
  \<open>os.makedirs\<close> did not raise.
\<close>

definition root_ready :: "env \<Rightarrow> world \<Rightarrow> world" where
  "root_ready e w =
     (if path_exists e w EXPORT_DIRECTORY then w
      else say (Created_export_directory EXPORT_DIRECTORY)
             (w\<lparr>dirs := made_by_makedirs e EXPORT_DIRECTORY \<union> dirs w\<rparr>))"

text \<open>
  What the specification asks of the walker: the loop body is run on each record in turn,
  in the order of the list and with the record's index, each in the world the one before
  left, until one of them raises.
\<close>

definition each_in_turn :: "env \<Rightarrow> globals \<Rightarrow> nat \<Rightarrow> nat \<Rightarrow> meta list \<Rightarrow> world \<Rightarrow> outcome" where
  "each_in_turn e g n i cs w =
     foldl (\<lambda>oc (k, c). and_then oc (\<lambda>u v. export_component e g n k c v)) (Finished w)
       (zip [i..<i + length cs] cs)"

section \<open>The query filter as the specification writes it\<close>

text \<open>
  The JSON body of the specification's section on external interfaces, key by key in the
  order written there.
\<close>

definition spec_query_filter :: json where
  "spec_query_filter =
     dict [(''QueryFilter'',
       dict [(''expression'',
         dict [(''operator'', JString (str ''and'')),
               (''nestedExpression'', JArray
                  [dict [(''property'', JString (str ''deleted'')),
                         (''operator'', JString (str ''EQUALS'')),
                         (''argument'', JArray [JString (str ''false'')])],
                   dict [(''property'', JString (str ''currentVersion'')),
                         (''operator'', JString (str ''EQUALS'')),
                         (''argument'', JArray [JString (str ''true'')])]])])])]"

section \<open>Concrete runs\<close>

text \<open>A Unicode table with no alphanumeric character beyond ASCII, and an empty world.\<close>

definition ascii_only :: "nat \<Rightarrow> bool" where
  "ascii_only c = False"

definition empty_world :: world where
  "empty_world = \<lparr>sent = [], dirs = {}, files = Map.empty, out = []\<rparr>"

text \<open>
  A file system without links: a path names the file that its components name, once the
  empty components and the components \<open>.\<close> are dropped and each \<open>..\<close> has taken back
  the component before it.
\<close>

fun split_on :: "nat \<Rightarrow> pystr \<Rightarrow> pystr list" where
  "split_on sep [] = [[]]"
| "split_on sep (c # cs) =
     (if c = sep then [] # split_on sep cs
      else (case split_on sep cs of [] \<Rightarrow> [[c]] | p # ps \<Rightarrow> (c # p) # ps))"

fun norm_step :: "bool \<Rightarrow> pystr list \<Rightarrow> pystr \<Rightarrow> pystr list" where
  "norm_step absolute st p =
     (if p = [] \<or> p = [46] then st
      else if p = [46, 46] then
        (case st of
           [] \<Rightarrow> (if absolute then [] else [p])
         | q # qs \<Rightarrow> (if q = [46, 46] then p # st else qs))
      else p # st)"

fun join_with :: "nat \<Rightarrow> pystr list \<Rightarrow> pystr" where
  "join_with sep [] = []"
| "join_with sep [p] = p"
| "join_with sep (p # q # ps) = p @ sep # join_with sep (q # ps)"

definition posix_resolve :: "pystr \<Rightarrow> pystr" where
  "posix_resolve p =
     (let absolute = (p \<noteq> [] \<and> hd p = 47)
      in (if absolute then [47] else [])
         @ join_with 47 (rev (foldl (norm_step absolute) [] (split_on 47 p))))"

text \<open>An API that refuses every request, and a file system that never fails.\<close>

definition offline_env :: env where
  "offline_env = \<lparr>unicode_alnum = ascii_only,
                   http = (\<lambda>hist rq. RequestException (str ''offline'')),
                   makedirs_error = (\<lambda>p. None),
                   write_result = (\<lambda>p c. Written),
                   resolve = posix_resolve\<rparr>"

text \<open>Complete credentials, before \<open>main\<close> has set \<open>BASE_URL\<close>.\<close>

definition test_globals :: globals where
  "test_globals = \<lparr>BOOMI_ACCOUNT_ID = Some (str ''acct''), BOOMI_USERNAME = Some (str ''user''),
                    BOOMI_API_TOKEN = Some (str ''secret''), BASE_URL = []\<rparr>"

text \<open>Credentials with an empty API token.\<close>

definition no_token_globals :: globals where
  "no_token_globals = \<lparr>BOOMI_ACCOUNT_ID = Some (str ''acct''), BOOMI_USERNAME = Some (str ''user''),
                        BOOMI_API_TOKEN = Some [], BASE_URL = []\<rparr>"

text \<open>Three metadata records; the first two share their name and folder.\<close>

definition invoice_123 :: meta where
  "invoice_123 = \<lparr>m_componentId = Some (PStr (str ''123'')),
                   m_name = Some (PStr (str ''Invoice Map'')), m_version = Some (PInt 1),
                   m_type = Some (PStr (str ''transform.map'')),
                   m_folderName = Some (PStr (str ''Finance''))\<rparr>"

definition invoice_456 :: meta where
  "invoice_456 = \<lparr>m_componentId = Some (PStr (str ''456'')),
                   m_name = Some (PStr (str ''Invoice Map'')), m_version = Some (PInt 1),
                   m_type = Some (PStr (str ''transform.map'')),
                   m_folderName = Some (PStr (str ''Finance''))\<rparr>"

definition orders_789 :: meta where
  "orders_789 = \<lparr>m_componentId = Some (PStr (str ''789'')),
                  m_name = Some (PStr (str ''Orders: EU/US'')), m_version = Some (PInt 3),
                  m_type = Some (PStr (str ''process'')), m_folderName = None\<rparr>"

text \<open>A response to a query: a page of records and, maybe, a token.\<close>

definition page_response :: "meta list \<Rightarrow> pyval option \<Rightarrow> http_outcome" where
  "page_response res tok = Response \<lparr>r_text = [], r_json = \<lparr>p_result = Some res, p_queryToken = tok\<rparr>\<rparr>"

text \<open>
  An API that answers the first three requests with one record each, the first two with
  the tokens \<open>T1\<close> and \<open>T2\<close> and the third without a token, and refuses the rest.
\<close>

definition paged_env :: env where
  "paged_env = \<lparr>unicode_alnum = ascii_only,
                 http = (\<lambda>hist rq.
                   if length hist = 0 then page_response [invoice_123] (Some (PStr (str ''T1'')))
                   else if length hist = 1 then page_response [invoice_456] (Some (PStr (str ''T2'')))
                   else if length hist = 2 then page_response [orders_789] None
                   else RequestException (str ''offline'')),
                 makedirs_error = (\<lambda>p. None),
                 write_result = (\<lambda>p c. Written),
                 resolve = posix_resolve\<rparr>"

text \<open>
  An API that answers the first request with one record and a token and every later
  request with status 500.
\<close>

definition broken_env :: env where
  "broken_env = \<lparr>unicode_alnum = ascii_only,
                  http = (\<lambda>hist rq.
                    if length hist = 0 then page_response [invoice_123] (Some (PStr (str ''T1'')))
                    else HTTPError (str ''500 Server Error'') (str ''oops'')),
                  makedirs_error = (\<lambda>p. None),
                  write_result = (\<lambda>p c. Written),
                  resolve = posix_resolve\<rparr>"

text \<open>
  The same two APIs, but the token of the first page is \<open>T\<close> followed by the lone
  surrogate U+D800, as the JSON decoder returns it for an escaped surrogate.
\<close>

definition surrogate_token :: pyval where
  "surrogate_token = PStr (str ''T'' @ [55296])"

definition paged_surrogate_env :: env where
  "paged_surrogate_env = \<lparr>unicode_alnum = ascii_only,
                 http = (\<lambda>hist rq.
                   if length hist = 0 then page_response [invoice_123] (Some surrogate_token)
                   else if length hist = 1 then page_response [invoice_456] (Some (PStr (str ''T2'')))
                   else if length hist = 2 then page_response [orders_789] None
                   else RequestException (str ''offline'')),
                 makedirs_error = (\<lambda>p. None),
                 write_result = (\<lambda>p c. Written),
                 resolve = posix_resolve\<rparr>"

definition broken_surrogate_env :: env where
  "broken_surrogate_env = \<lparr>unicode_alnum = ascii_only,
                  http = (\<lambda>hist rq.
                    if length hist = 0 then page_response [invoice_123] (Some surrogate_token)
                    else HTTPError (str ''500 Server Error'') (str ''oops'')),
                  makedirs_error = (\<lambda>p. None),
                  write_result = (\<lambda>p c. Written),
                  resolve = posix_resolve\<rparr>"

text \<open>A record without \<open>componentId\<close>, and a document.\<close>

definition orphan :: meta where
  "orphan = \<lparr>m_componentId = None, m_name = Some (PStr (str ''Orphan'')),
              m_version = Some (PInt 2), m_type = Some (PStr (str ''process'')),
              m_folderName = Some (PStr (str ''Finance''))\<rparr>"

definition document_response :: "pystr \<Rightarrow> http_outcome" where
  "document_response body =
     Response \<lparr>r_text = body, r_json = \<lparr>p_result = None, p_queryToken = None\<rparr>\<rparr>"

text \<open>An API that answers every request with the same document.\<close>

definition serving_env :: env where
  "serving_env = \<lparr>unicode_alnum = ascii_only,
                   http = (\<lambda>hist rq. document_response (str ''<Component/>'')),
                   makedirs_error = (\<lambda>p. None),
                   write_result = (\<lambda>p c. Written),
                   resolve = posix_resolve\<rparr>"

text \<open>
  An API that answers the first request with an empty body and every later request
  with a document.
\<close>

definition empty_first_env :: env where
  "empty_first_env = \<lparr>unicode_alnum = ascii_only,
                       http = (\<lambda>hist rq. if length hist = 0 then document_response []
                                          else document_response (str ''<Component/>'')),
                       makedirs_error = (\<lambda>p. None),
                       write_result = (\<lambda>p c. Written),
                       resolve = posix_resolve\<rparr>"

text \<open>Records with a \<open>null\<close> attribute: a folder name, a name, and a folder name without an id.\<close>

definition null_folder_456 :: meta where
  "null_folder_456 = \<lparr>m_componentId = Some (PStr (str ''456'')),
                       m_name = Some (PStr (str ''Invoice Map'')), m_version = Some (PInt 1),
                       m_type = Some (PStr (str ''transform.map'')),
                       m_folderName = Some PNone\<rparr>"

definition null_name_123 :: meta where
  "null_name_123 = \<lparr>m_componentId = Some (PStr (str ''123'')),
                     m_name = Some PNone, m_version = Some (PInt 1),
                     m_type = Some (PStr (str ''transform.map'')),
                     m_folderName = Some (PStr (str ''Finance''))\<rparr>"

definition null_folder_orphan :: meta where
  "null_folder_orphan = \<lparr>m_componentId = None,
                          m_name = Some (PStr (str ''Orphan'')), m_version = Some (PInt 1),
                          m_type = Some (PStr (str ''process'')),
                          m_folderName = Some PNone\<rparr>"

text \<open>
  A record without an id whose name ends in the lone surrogate U+D800, a record
  whose id holds a NUL character, and a record whose version does.
\<close>

definition surrogate_orphan :: meta where
  "surrogate_orphan = \<lparr>m_componentId = None, m_name = Some (PStr (str ''A'' @ [55296])),
                        m_version = Some (PInt 2), m_type = Some (PStr (str ''process'')),
                        m_folderName = Some (PStr (str ''Finance''))\<rparr>"

definition nul_id_record :: meta where
  "nul_id_record = \<lparr>m_componentId = Some (PStr (str ''a'' @ [0] @ str ''b'')),
                     m_name = Some (PStr (str ''Invoice Map'')), m_version = Some (PInt 1),
                     m_type = Some (PStr (str ''transform.map'')),
                     m_folderName = Some (PStr (str ''Finance''))\<rparr>"

definition nul_version_record :: meta where
  "nul_version_record = \<lparr>m_componentId = Some (PStr (str ''123'')),
                         m_name = Some (PStr (str ''Invoice Map'')),
                         m_version = Some (PStr (str ''1'' @ [0])),
                         m_type = Some (PStr (str ''transform.map'')),
                         m_folderName = Some (PStr (str ''Finance''))\<rparr>"

text \<open>
  Two records of one folder with different ids and integer versions, and an API that
  answers the first request with one document and the rest with another.
\<close>

definition map_v2_x :: meta where
  "map_v2_x = \<lparr>m_componentId = Some (PStr (str ''x'')),
                m_name = Some (PStr (str ''Map_v2'')), m_version = Some (PInt 1),
                m_type = Some (PStr (str ''transform.map'')),
                m_folderName = Some (PStr (str ''Finance''))\<rparr>"

definition map_v1_x :: meta where
  "map_v1_x = \<lparr>m_componentId = Some (PStr (str ''v1_x'')),
                m_name = Some (PStr (str ''Map'')), m_version = Some (PInt 2),
                m_type = Some (PStr (str ''transform.map'')),
                m_folderName = Some (PStr (str ''Finance''))\<rparr>"

definition two_documents_env :: env where
  "two_documents_env = \<lparr>unicode_alnum = ascii_only,
                         http = (\<lambda>hist rq. if length hist = 0 then document_response (str ''<A/>'')
                                            else document_response (str ''<B/>'')),
                         makedirs_error = (\<lambda>p. None),
                         write_result = (\<lambda>p c. Written),
                         resolve = posix_resolve\<rparr>"

section \<open>Properties of the sanitizer\<close>

lemma rstrip_decomp: "\<exists>ws. s = rstrip s @ ws \<and> (\<forall>c\<in>set ws. isspace c)"
proof -
  have "rev s = takeWhile isspace (rev s) @ dropWhile isspace (rev s)" by simp
  then have "s = rev (dropWhile isspace (rev s)) @ rev (takeWhile isspace (rev s))"
    by (metis rev_append rev_rev_ident)
  moreover have "\<forall>c\<in>set (rev (takeWhile isspace (rev s))). isspace c"
    by (auto dest: set_takeWhileD)
  ultimately show ?thesis unfolding rstrip_def by blast
qed

lemma rstrip_last: "rstrip s = [] \<or> \<not> isspace (last (rstrip s))"
proof (cases "dropWhile isspace (rev s)")
  case Nil
  then show ?thesis by (simp add: rstrip_def)
next
  case (Cons a as)
  then have "\<not> isspace (hd (dropWhile isspace (rev s)))"
    by (metis hd_dropWhile list.distinct(1))
  with Cons show ?thesis by (simp add: rstrip_def)
qed

lemma rstrip_fixed: "xs = [] \<or> \<not> isspace (last xs) \<Longrightarrow> rstrip xs = xs"
  by (cases xs rule: rev_cases) (auto simp: rstrip_def)

lemma rstrip_idem: "rstrip (rstrip s) = rstrip s"
  using rstrip_last [of s] by (rule rstrip_fixed)

lemma set_rstrip: "set (rstrip s) \<subseteq> set s"
  by (auto simp: rstrip_def dest: set_dropWhileD)

lemma kept_sanitize_char: "kept ua (sanitize_char ua c)"
  by (simp add: sanitize_char_def kept_def)

lemma sanitize_char_kept: "kept ua c \<Longrightarrow> sanitize_char ua c = c"
  by (simp add: sanitize_char_def)

lemma kept_sanitize_str: "c \<in> set (sanitize_str ua s) \<Longrightarrow> kept ua c"
  using set_rstrip [of "map (sanitize_char ua) s"]
  by (auto simp: sanitize_str_def kept_sanitize_char)

lemma map_sanitize_char_id: "\<forall>c\<in>set xs. kept ua c \<Longrightarrow> map (sanitize_char ua) xs = xs"
  by (induction xs) (simp_all add: sanitize_char_kept)

lemma sanitize_str_idem: "sanitize_str ua (sanitize_str ua s) = sanitize_str ua s"
proof -
  have "map (sanitize_char ua) (sanitize_str ua s) = sanitize_str ua s"
    by (rule map_sanitize_char_id) (simp add: kept_sanitize_str)
  then have "sanitize_str ua (sanitize_str ua s) = rstrip (sanitize_str ua s)"
    by (simp add: sanitize_str_def)
  then show ?thesis by (simp add: sanitize_str_def rstrip_idem)
qed

lemmas sanitizer_eval =
  sanitize_str_def str_def rstrip_def sanitize_char_def kept_def isalnum_def ascii_alnum_def
  isspace_def ascii_only_def

text \<open>
  Claim C4. For every string \<open>s\<close> and every Unicode table, \<open>sanitize_name\<close> returns a
  string and does not raise. Every character of the result is alphanumeric, a space, a
  period, an underscore or a hyphen, and the result does not end in white space. The
  result is what is left of \<open>s\<close>, with every character outside that set replaced by an
  underscore and every other character kept in its place, once the white space \<open>ws\<close> at
  its end is cut off.
\<close>

theorem sanitize_name_output:
  "sanitize_name ua (PStr s) = Inr (sanitize_str ua s)
   \<and> (\<forall>c\<in>set (sanitize_str ua s). isalnum ua c \<or> c = 32 \<or> c = 46 \<or> c = 95 \<or> c = 45)
   \<and> (sanitize_str ua s = [] \<or> \<not> isspace (last (sanitize_str ua s)))
   \<and> (\<exists>ws. map (\<lambda>c. if isalnum ua c \<or> c = 32 \<or> c = 46 \<or> c = 95 \<or> c = 45 then c else 95) s
            = sanitize_str ua s @ ws
          \<and> (\<forall>c\<in>set ws. isspace c))"
proof -
  have m: "map (\<lambda>c. if isalnum ua c \<or> c = 32 \<or> c = 46 \<or> c = 95 \<or> c = 45 then c else 95) s
         = map (sanitize_char ua) s"
    by (simp add: sanitize_char_def kept_def)
  have "\<forall>c\<in>set (sanitize_str ua s). isalnum ua c \<or> c = 32 \<or> c = 46 \<or> c = 95 \<or> c = 45"
    using kept_sanitize_str [of _ ua s] by (auto simp: kept_def)
  moreover have "sanitize_str ua s = [] \<or> \<not> isspace (last (sanitize_str ua s))"
    unfolding sanitize_str_def by (rule rstrip_last)
  moreover have "\<exists>ws. map (sanitize_char ua) s = sanitize_str ua s @ ws \<and> (\<forall>c\<in>set ws. isspace c)"
    unfolding sanitize_str_def by (rule rstrip_decomp)
  ultimately show ?thesis unfolding m by simp
qed

text \<open>
  The theorem at \<open>"a/b: c.  "\<close>, which holds a slash, a colon and two spaces at its end:
  the result is \<open>"a_b_ c."\<close>, it ends in a period, and a slash is not among its characters.
\<close>

theorem sanitize_name_output_witness:
  "sanitize_name ascii_only (PStr (str ''a/b: c.  '')) = Inr (str ''a_b_ c.'')
   \<and> \<not> isspace (last (sanitize_str ascii_only (str ''a/b: c.  '')))
   \<and> 47 \<notin> set (sanitize_str ascii_only (str ''a/b: c.  ''))"
  using sanitize_name_output [of ascii_only "str ''a/b: c.  ''"]
  by (simp add: sanitizer_eval)

text \<open>
  Claim C5. \<open>sanitize_name\<close> is idempotent on strings: it returns a string, and applied
  to that string it returns it again. The result is a function of the string (and of the
  Unicode table) alone: \<open>sanitize_name\<close> takes no state and returns none.
\<close>

theorem sanitize_name_idempotent:
  "sanitize_name ua (PStr s) = Inr (sanitize_str ua s)
   \<and> sanitize_name ua (PStr (sanitize_str ua s)) = Inr (sanitize_str ua s)"
  by (simp add: sanitize_str_idem)

theorem sanitize_name_idempotent_witness:
  "sanitize_name ascii_only (PStr (str ''a/b: c.  '')) = Inr (str ''a_b_ c.'')
   \<and> sanitize_name ascii_only (PStr (str ''a_b_ c.'')) = Inr (str ''a_b_ c.'')"
  using sanitize_name_idempotent [of ascii_only "str ''a/b: c.  ''"]
  by (simp add: sanitizer_eval)

section \<open>Properties of the world\<close>

lemma say_fields [simp]:
  "sent (say m w) = sent w" "dirs (say m w) = dirs w" "files (say m w) = files w"
  "out (say m w) = out w @ [m]"
  by (simp_all add: say_def)

lemma send_fields [simp]:
  "sent (send rq w) = sent w @ [rq]" "dirs (send rq w) = dirs w" "files (send rq w) = files w"
  "out (send rq w) = out w"
  by (simp_all add: send_def)

section \<open>The credential check\<close>

text \<open>
  Claim C7. When one of the three values read from the environment is missing or is the
  empty string, \<open>main\<close> returns at once: it prints the two lines of its message and
  changes nothing else, so no request has been sent and no directory or file made.
\<close>

theorem main_missing_credentials:
  assumes "BOOMI_ACCOUNT_ID g = None \<or> BOOMI_ACCOUNT_ID g = Some []
         \<or> BOOMI_USERNAME g = None \<or> BOOMI_USERNAME g = Some []
         \<or> BOOMI_API_TOKEN g = None \<or> BOOMI_API_TOKEN g = Some []"
  shows "main e g w = Some (Finished (w\<lparr>out := out w @ [Env_missing, Env_hint]\<rparr>))"
proof -
  from assms have "\<not> list_all env_truthy [BOOMI_ACCOUNT_ID g, BOOMI_USERNAME g, BOOMI_API_TOKEN g]"
    by (auto simp: env_truthy_def)
  then show ?thesis
    by (simp add: main_def say_def)
qed

theorem main_missing_credentials_witness:
  "BOOMI_API_TOKEN no_token_globals = Some []
   \<and> main offline_env no_token_globals empty_world
       = Some (Finished (empty_world\<lparr>out := [Env_missing, Env_hint]\<rparr>))"
  using main_missing_credentials [of no_token_globals offline_env empty_world]
  by (simp add: no_token_globals_def empty_world_def)

section \<open>Sequencing and printing\<close>

lemma and_then_Done [simp]: "and_then (Done a w) f = f a w"
  by (simp add: and_then_def)

lemma and_then_Raised [simp]: "and_then (Raised x w) f = Raised x w"
  by (simp add: and_then_def)

lemma print_line_printable [simp]: "printable m \<Longrightarrow> print_line m w = Finished (say m w)"
  by (simp add: print_line_def)

lemma print_line_unprintable [simp]:
  "\<not> printable m \<Longrightarrow> print_line m w = Raised UnicodeEncodeError w"
  by (simp add: print_line_def)

lemma print_line_sent [simp]: "sent (world_of (print_line m w)) = sent w"
  by (simp add: print_line_def)

lemma print_line_files [simp]: "files (world_of (print_line m w)) = files w"
  by (simp add: print_line_def)

section \<open>The requests a run sends\<close>

text \<open>Every part of a run only adds to the list of requests sent.\<close>

lemma query_more_sent:
  assumes "query_more e g t acc w = Some y"
  shows "\<exists>rest. sent (world_of y) = sent w @ rest"
proof (rule query_more.raw_induct
    [where P = "\<lambda>e g t acc w y. \<exists>rest. sent (world_of y) = sent w @ rest", OF _ assms])
  fix qm :: "env \<Rightarrow> globals \<Rightarrow> pyval \<Rightarrow> meta list \<Rightarrow> world \<Rightarrow> meta list result option"
  fix e g t acc w y
  assume IH: "\<And>e g t acc w y. qm e g t acc w = Some y
                \<Longrightarrow> \<exists>rest. sent (world_of y) = sent w @ rest"
  assume body: "(if \<not> truthy t then Some (Done acc w)
      else if \<not> encodable (more_payload_xml t) then Some (Raised UnicodeEncodeError w)
      else case http e (sent w) (more_request g t) of
           Response r \<Rightarrow>
             (case p_result (r_json r) of
               None \<Rightarrow> Some (Done acc (say Page_failed (send (more_request g t) w)))
             | Some res \<Rightarrow>
                 qm e g (dict_get (p_queryToken (r_json r))) (acc @ res)
                  (say (Retrieved (length (acc @ res))) (send (more_request g t) w)))
           | HTTPError err txt \<Rightarrow>
               Some (Done acc (say (Response_content txt) (say (Page_http_error err)
                    (send (more_request g t) w))))
           | RequestException err \<Rightarrow>
               Some (Done acc (say (Page_request_error err) (send (more_request g t) w)))
           | OtherException x \<Rightarrow> Some (Raised x (send (more_request g t) w))) = Some y"
  show "\<exists>rest. sent (world_of y) = sent w @ rest"
  proof (cases "truthy t \<and> encodable (more_payload_xml t)")
    case False
    with body show ?thesis by (auto split: if_splits)
  next
    case True
    show ?thesis
    proof (cases "http e (sent w) (more_request g t)")
      case (Response r)
      show ?thesis
      proof (cases "p_result (r_json r)")
        case None
        with body True Response show ?thesis by auto
      next
        case (Some res)
        with body True Response
        have "qm e g (dict_get (p_queryToken (r_json r))) (acc @ res)
                (say (Retrieved (length (acc @ res))) (send (more_request g t) w)) = Some y"
          by simp
        from IH [OF this] show ?thesis by auto
      qed
    next
      case (HTTPError a b)
      with body True show ?thesis by auto
    next
      case (RequestException a)
      with body True show ?thesis by auto
    next
      case (OtherException x)
      with body True show ?thesis by auto
    qed
  qed
qed

lemma fmap_of_list_swap3:
  "k1 \<noteq> k2 \<Longrightarrow> k1 \<noteq> k3 \<Longrightarrow> k2 \<noteq> k3 \<Longrightarrow>
   fmap_of_list [(k1, a), (k2, b), (k3, c)] = fmap_of_list [(k3, c), (k2, b), (k1, a)]"
  by (rule fmap_ext) (auto simp: fmlookup_of_list)

lemma dict3_swap:
  "dict [(''argument'', a), (''operator'', b), (''property'', c)]
   = dict [(''property'', c), (''operator'', b), (''argument'', a)]"
proof -
  have "str ''argument'' \<noteq> str ''operator''" "str ''argument'' \<noteq> str ''property''"
    "str ''operator'' \<noteq> str ''property''"
    by (simp_all add: str_def)
  then have "fmap_of_list [(str ''argument'', a), (str ''operator'', b), (str ''property'', c)]
           = fmap_of_list [(str ''property'', c), (str ''operator'', b), (str ''argument'', a)]"
    by (rule fmap_of_list_swap3)
  then show ?thesis
    by (simp only: dict_def list.map prod.case)
qed

lemma initial_payload_spec: "initial_payload = spec_query_filter"
  unfolding initial_payload_def spec_query_filter_def by (simp only: dict3_swap)

text \<open>What the first call of \<open>get_all_components\<close> does, whatever the answer.\<close>

lemma make_api_request_query:
  "make_api_request e g (str ''/ComponentMetadata/query'') POST (Some initial_payload) w =
     (case http e (sent w) (query_request g) of
        Response r \<Rightarrow> Done (Some (r_json r)) (send (query_request g) w)
      | HTTPError err txt \<Rightarrow>
          Done None (say (Response_content txt) (say (Http_error err) (send (query_request g) w)))
      | RequestException err \<Rightarrow> Done None (say (Request_error err) (send (query_request g) w))
      | OtherException x \<Rightarrow> Raised x (send (query_request g) w))"
  by (simp add: make_api_request_def query_request_def Let_def split: http_outcome.split)

lemma make_api_request_query_sent:
  "sent (world_of (make_api_request e g (str ''/ComponentMetadata/query'') POST
                     (Some initial_payload) w))
   = sent w @ [query_request g]"
  by (simp add: make_api_request_query split: http_outcome.splits)

lemma get_all_components_sent:
  assumes "get_all_components e g w = Some y"
  shows "\<exists>rest. sent (world_of y) = sent w @ query_request g # rest"
proof (cases "make_api_request e g (str ''/ComponentMetadata/query'') POST (Some initial_payload)
                (say Fetching_metadata w)")
  case (Raised x w1)
  from make_api_request_query_sent [of e g "say Fetching_metadata w"] Raised
  have "sent w1 = sent w @ [query_request g]" by simp
  with assms Raised show ?thesis by (auto simp: get_all_components_def)
next
  case (Done resp w1)
  from make_api_request_query_sent [of e g "say Fetching_metadata w"] Done
  have s1: "sent w1 = sent w @ [query_request g]" by simp
  show ?thesis
  proof (cases resp)
    case None
    with assms Done s1 show ?thesis by (auto simp: get_all_components_def)
  next
    case (Some response)
    show ?thesis
    proof (cases "p_result response")
      case None
      with assms Done Some s1 show ?thesis by (auto simp: get_all_components_def)
    next
      case (Some res)
      with assms Done \<open>resp = Some response\<close>
      obtain z where z: "query_more e g (dict_get (p_queryToken response)) res
                       (say (Retrieved (length res)) w1) = Some z"
        and y: "sent (world_of y) = sent (world_of z)"
        by (auto simp: get_all_components_def split: option.splits result.splits)
      from query_more_sent [OF z] s1 y show ?thesis by auto
    qed
  qed
qed

lemma get_component_definition_sent:
  "\<exists>rest. sent (world_of (get_component_definition e g cid w)) = sent w @ rest"
  by (simp add: get_component_definition_def print_line_def split: http_outcome.split)

lemma write_file_sent [simp]: "sent (world_of (write_file e p c w)) = sent w"
  by (simp add: write_file_def split: write_outcome.split)

lemma fetch_and_save_sent:
  "\<exists>rest. sent (world_of (fetch_and_save e g cid nm v dir w)) = sent w @ rest"
proof (cases "get_component_definition e g cid w")
  case (Done x w1)
  with get_component_definition_sent [of e g cid w]
  obtain rest where "sent w1 = sent w @ rest" by auto
  with Done show ?thesis
    by (auto simp: fetch_and_save_def split: option.split sum.split)
next
  case (Raised x w1)
  with get_component_definition_sent [of e g cid w] show ?thesis
    by (auto simp: fetch_and_save_def)
qed

lemma export_component_sent:
  "\<exists>rest. sent (world_of (export_component e g n i c w)) = sent w @ rest"
proof -
  have f: "\<And>cid nm v dir w1. sent w1 = sent w \<Longrightarrow>
             \<exists>rest. sent (world_of (fetch_and_save e g cid nm v dir w1)) = sent w @ rest"
    using fetch_and_save_sent by metis
  show ?thesis
    unfolding export_component_def Let_def print_line_def
    by (auto split: sum.split option.split intro!: f)
qed

lemma export_loop_sent:
  "\<exists>rest. sent (world_of (export_loop e g n i cs w)) = sent w @ rest"
proof (induction cs arbitrary: i w)
  case Nil
  show ?case by simp
next
  case (Cons c cs)
  show ?case
  proof (cases "export_component e g n i c w")
    case (Done u w1)
    with export_component_sent [of e g n i c w]
    obtain r1 where "sent w1 = sent w @ r1" by auto
    moreover from Cons [of "Suc i" w1]
    obtain r2 where "sent (world_of (export_loop e g n (Suc i) cs w1)) = sent w1 @ r2" by auto
    ultimately show ?thesis using Done by simp
  next
    case (Raised x w1)
    with export_component_sent [of e g n i c w] show ?thesis by simp
  qed
qed

lemma main_after_checks:
  assumes "env_truthy (BOOMI_ACCOUNT_ID g)" "env_truthy (BOOMI_USERNAME g)"
      "env_truthy (BOOMI_API_TOKEN g)"
    and "path_exists e w EXPORT_DIRECTORY \<or> makedirs_error e EXPORT_DIRECTORY = None"
  shows "main e g w =
    (case get_all_components e (with_base_url g) (root_ready e w) of
       None \<Rightarrow> None
     | Some (Raised x w2) \<Rightarrow> Some (Raised x w2)
     | Some (Done components w2) \<Rightarrow>
         (if components = [] then Some (Finished (say No_components w2))
          else (case export_loop e (with_base_url g) (length components) 0 components
                       (say Starting_export w2) of
                  Raised x w3 \<Rightarrow> Some (Raised x w3)
                | Done u w3 \<Rightarrow> Some (Finished (say Export_complete w3)))))"
proof (cases "path_exists e w EXPORT_DIRECTORY")
  case True
  with assms show ?thesis
    unfolding main_def Let_def with_base_url_def root_ready_def by simp
next
  case False
  with assms have "makedirs_error e EXPORT_DIRECTORY = None" by simp
  with False assms show ?thesis
    unfolding main_def Let_def with_base_url_def root_ready_def by simp
qed

lemma main_sent:
  assumes creds: "env_truthy (BOOMI_ACCOUNT_ID g)" "env_truthy (BOOMI_USERNAME g)"
      "env_truthy (BOOMI_API_TOKEN g)"
    and root: "path_exists e w EXPORT_DIRECTORY \<or> makedirs_error e EXPORT_DIRECTORY = None"
    and run: "main e g w = Some oc"
  shows "\<exists>rest. sent (world_of oc) = sent w @ query_request (with_base_url g) # rest"
proof -
  have s1: "sent (root_ready e w) = sent w" by (simp add: root_ready_def)
  note m = run [unfolded main_after_checks [OF creds root]]
  then obtain y where g: "get_all_components e (with_base_url g) (root_ready e w) = Some y"
    by (auto split: option.splits)
  from get_all_components_sent [OF g] s1
  obtain r1 where s2: "sent (world_of y) = sent w @ query_request (with_base_url g) # r1" by auto
  show ?thesis
  proof (cases y)
    case (Raised x w2)
    with m g s2 show ?thesis by auto
  next
    case (Done cs w2)
    show ?thesis
    proof (cases "cs = []")
      case True
      with m g s2 Done show ?thesis by auto
    next
      case False
      from export_loop_sent [of e "with_base_url g" "length cs" 0 cs "say Starting_export w2"]
      obtain r2 where s3: "sent (world_of (export_loop e (with_base_url g) (length cs) 0 cs
                              (say Starting_export w2))) = sent w2 @ r2" by auto
      show ?thesis
      proof (cases "export_loop e (with_base_url g) (length cs) 0 cs (say Starting_export w2)")
        case (Done u w3)
        with m g False s2 s3 \<open>y = Done cs w2\<close> show ?thesis by auto
      next
        case (Raised x w3)
        with m g False s2 s3 \<open>y = Done cs w2\<close> show ?thesis by auto
      qed
    qed
  qed
qed

text \<open>
  Claim C8. The first request of the pagination driver is a POST to the query endpoint
  whose JSON body is the filter the specification gives (\<open>deleted = false\<close> and
  \<open>currentVersion = true\<close>): the dict the source writes is that document. The first call
  sends exactly this request whatever the answer; every run of \<open>get_all_components\<close>
  that ends, with a result or with an exception, has sent it first; and so has every run
  of \<open>main\<close> that got past the credential check and the creation of the export
  directory.
\<close>

theorem first_query_filter:
  "payload (query_request g) = JsonBody spec_query_filter
   \<and> verb (query_request g) = POST
   \<and> url (query_request g) = BASE_URL g @ str ''/ComponentMetadata/query''
   \<and> sent (world_of (make_api_request e g (str ''/ComponentMetadata/query'') POST
                  (Some initial_payload) w)) = sent w @ [query_request g]
   \<and> (\<forall>y. get_all_components e g w = Some y
          \<longrightarrow> (\<exists>rest. sent (world_of y) = sent w @ query_request g # rest))
   \<and> (\<forall>oc. env_truthy (BOOMI_ACCOUNT_ID g) \<and> env_truthy (BOOMI_USERNAME g)
          \<and> env_truthy (BOOMI_API_TOKEN g)
          \<and> (path_exists e w EXPORT_DIRECTORY \<or> makedirs_error e EXPORT_DIRECTORY = None)
          \<and> main e g w = Some oc
          \<longrightarrow> (\<exists>rest. sent (world_of oc) = sent w @ query_request (with_base_url g) # rest))"
proof -
  have "payload (query_request g) = JsonBody spec_query_filter"
    by (simp add: query_request_def initial_payload_spec)
  moreover have "verb (query_request g) = POST"
    and "url (query_request g) = BASE_URL g @ str ''/ComponentMetadata/query''"
    by (simp_all add: query_request_def)
  moreover note make_api_request_query_sent [of e g w]
  moreover have "\<forall>y. get_all_components e g w = Some y
          \<longrightarrow> (\<exists>rest. sent (world_of y) = sent w @ query_request g # rest)"
    using get_all_components_sent by blast
  moreover have "\<forall>oc. env_truthy (BOOMI_ACCOUNT_ID g) \<and> env_truthy (BOOMI_USERNAME g)
          \<and> env_truthy (BOOMI_API_TOKEN g)
          \<and> (path_exists e w EXPORT_DIRECTORY \<or> makedirs_error e EXPORT_DIRECTORY = None)
          \<and> main e g w = Some oc
          \<longrightarrow> (\<exists>rest. sent (world_of oc) = sent w @ query_request (with_base_url g) # rest)"
    using main_sent by blast
  ultimately show ?thesis by blast
qed

text \<open>
  The theorem at a run against an API that refuses every request: the driver returns the
  empty list, and the one request it has sent carries the specification's filter.
\<close>

theorem first_query_filter_witness:
  "\<exists>w'. get_all_components offline_env test_globals empty_world = Some (Done [] w')
        \<and> map payload (sent w') = [JsonBody spec_query_filter]"
proof -
  have run: "get_all_components offline_env test_globals empty_world
      = Some (Done [] (say Initial_failed (say (Request_error (str ''offline''))
                    (send (query_request test_globals) (say Fetching_metadata empty_world)))))"
    by (simp add: get_all_components_def make_api_request_query offline_env_def)
  have "sent empty_world = []" by (simp add: empty_world_def)
  with run first_query_filter [of test_globals offline_env empty_world]
  show ?thesis by simp
qed

section \<open>Pagination\<close>

lemma encodable_append [simp]: "encodable (xs @ ys) = (encodable xs \<and> encodable ys)"
  by (simp add: encodable_def)

lemma encodable_str_ascii: "\<forall>c\<in>set s. c < 55296 \<Longrightarrow> encodable s"
  by (auto simp: encodable_def surrogate_def list_all_iff)

lemma encodable_more_payload [simp]: "encodable (more_payload_xml t) = encodable (py_str t)"
  by (simp add: more_payload_xml_def) (simp add: encodable_def surrogate_def str_def)

lemma query_more_stop: "\<not> truthy t \<Longrightarrow> query_more e g t acc w = Some (Done acc w)"
  by (subst query_more.simps) simp

lemma query_more_unencodable:
  "truthy t \<Longrightarrow> \<not> encodable (py_str t) \<Longrightarrow>
   query_more e g t acc w = Some (Raised UnicodeEncodeError w)"
  by (subst query_more.simps) simp

lemma query_more_page:
  "truthy t \<Longrightarrow> encodable (py_str t) \<Longrightarrow>
   http e (sent w) (more_request g t) = Response r \<Longrightarrow>
   p_result (r_json r) = Some res \<Longrightarrow>
   query_more e g t acc w
     = query_more e g (dict_get (p_queryToken (r_json r))) (acc @ res)
         (say (Retrieved (length (acc @ res))) (send (more_request g t) w))"
  by (subst query_more.simps) simp

lemma query_more_http_error:
  "truthy t \<Longrightarrow> encodable (py_str t) \<Longrightarrow>
   http e (sent w) (more_request g t) = HTTPError a b \<Longrightarrow>
   query_more e g t acc w
     = Some (Done acc (say (Response_content b) (say (Page_http_error a)
               (send (more_request g t) w))))"
  by (subst query_more.simps) simp

lemma query_more_request_error:
  "truthy t \<Longrightarrow> encodable (py_str t) \<Longrightarrow>
   http e (sent w) (more_request g t) = RequestException a \<Longrightarrow>
   query_more e g t acc w
     = Some (Done acc (say (Page_request_error a) (send (more_request g t) w)))"
  by (subst query_more.simps) simp

lemma get_all_components_first_page:
  "http e (sent w) (query_request g) = Response r \<Longrightarrow> p_result (r_json r) = Some res \<Longrightarrow>
   get_all_components e g w =
     (case query_more e g (dict_get (p_queryToken (r_json r))) res
             (say (Retrieved (length res)) (send (query_request g) (say Fetching_metadata w))) of
        None \<Rightarrow> None
      | Some (Raised x w2) \<Rightarrow> Some (Raised x w2)
      | Some (Done all_components w2) \<Rightarrow>
          Some (Done all_components (say (Total_found (length all_components)) w2)))"
  by (simp add: get_all_components_def make_api_request_query)

text \<open>
  What holds of the driver for tokens that encode: three pages give three requests and
  the three lists in their order.
\<close>

lemma three_pages:
  assumes p1: "http e (sent w) (query_request g) = Response ra"
      "p_result (r_json ra) = Some Ra" "p_queryToken (r_json ra) = Some Ta"
      "truthy Ta" "encodable (py_str Ta)"
    and p2: "http e (sent w @ [query_request g]) (more_request g Ta) = Response rb"
      "p_result (r_json rb) = Some Rb" "p_queryToken (r_json rb) = Some Tb"
      "truthy Tb" "encodable (py_str Tb)"
    and p3: "http e (sent w @ [query_request g, more_request g Ta]) (more_request g Tb) = Response rc"
      "p_result (r_json rc) = Some Rc" "p_queryToken (r_json rc) = None"
  shows "\<exists>w'. get_all_components e g w = Some (Done (Ra @ Rb @ Rc) w')
            \<and> sent w' = sent w @ [query_request g, more_request g Ta, more_request g Tb]"
proof -
  define w1 where "w1 = say (Retrieved (length Ra)) (send (query_request g) (say Fetching_metadata w))"
  define w2 where "w2 = say (Retrieved (length (Ra @ Rb))) (send (more_request g Ta) w1)"
  define w3 where "w3 = say (Retrieved (length ((Ra @ Rb) @ Rc))) (send (more_request g Tb) w2)"
  have s1: "sent w1 = sent w @ [query_request g]" by (simp add: w1_def)
  have s2: "sent w2 = sent w @ [query_request g, more_request g Ta]" by (simp add: w2_def s1)
  have s3: "sent w3 = sent w @ [query_request g, more_request g Ta, more_request g Tb]"
    by (simp add: w3_def s2)
  have "query_more e g Ta Ra w1 = query_more e g Tb (Ra @ Rb) w2"
    using p1(4,5) p2 unfolding w2_def
    by (subst query_more_page [where r = rb and res = Rb]) (simp_all add: s1 dict_get_def)
  also have "\<dots> = query_more e g PNone ((Ra @ Rb) @ Rc) w3"
    using p2(4,5) p3 unfolding w3_def
    by (subst query_more_page [where r = rc and res = Rc]) (simp_all add: s2 dict_get_def)
  also have "\<dots> = Some (Done ((Ra @ Rb) @ Rc) w3)"
    by (rule query_more_stop) simp
  finally have "query_more e g Ta Ra w1 = Some (Done (Ra @ Rb @ Rc) w3)" by simp
  with p1 have "get_all_components e g w
      = Some (Done (Ra @ Rb @ Rc) (say (Total_found (length (Ra @ Rb @ Rc))) w3))"
    by (simp add: get_all_components_first_page [where r = ra and res = Ra] dict_get_def w1_def)
  with s3 show ?thesis by simp
qed

text \<open>
  What holds of the driver for a token that encodes: when the continuation request
  fails, the first page is returned.
\<close>

lemma partial_results_kept:
  assumes first: "http e (sent w) (query_request g) = Response ra"
      "p_result (r_json ra) = Some Ra" "p_queryToken (r_json ra) = Some Ta"
      "truthy Ta" "encodable (py_str Ta)"
    and fail: "http e (sent w @ [query_request g]) (more_request g Ta) = HTTPError a b
             \<or> http e (sent w @ [query_request g]) (more_request g Ta) = RequestException a"
  shows "\<exists>w'. get_all_components e g w = Some (Done Ra w')
              \<and> sent w' = sent w @ [query_request g, more_request g Ta]"
proof -
  define w1 where "w1 = say (Retrieved (length Ra)) (send (query_request g) (say Fetching_metadata w))"
  have s1: "sent w1 = sent w @ [query_request g]" by (simp add: w1_def)
  from fail s1 first(4,5)
  have "\<exists>w2. query_more e g Ta Ra w1 = Some (Done Ra w2) \<and> sent w2 = sent w1 @ [more_request g Ta]"
    by (auto simp: query_more_http_error query_more_request_error)
  then obtain w2 where q: "query_more e g Ta Ra w1 = Some (Done Ra w2)"
    and s2: "sent w2 = sent w1 @ [more_request g Ta]" by blast
  from first q have "get_all_components e g w = Some (Done Ra (say (Total_found (length Ra)) w2))"
    by (simp add: get_all_components_first_page [where r = ra and res = Ra] dict_get_def w1_def)
  with s1 s2 show ?thesis by simp
qed

text \<open>
  Claim C2 at a failing input. The API answers the query with one record and the token
  \<open>T\<close> followed by a lone surrogate, and would answer the continuation requests with a
  second page and a token \<open>T2\<close> and with a third page and no token. The claim gives
  three requests and the three records. The driver sends the query, builds the payload
  for the token, and \<open>encode\<close> raises inside the \<open>try\<close>: the run of
  \<open>get_all_components\<close> ends in \<open>UnicodeEncodeError\<close> after one request.
\<close>

theorem surrogate_token_three_pages:
  "truthy surrogate_token
   \<and> http paged_surrogate_env [] (query_request test_globals)
       = page_response [invoice_123] (Some surrogate_token)
   \<and> http paged_surrogate_env [query_request test_globals]
        (more_request test_globals surrogate_token)
       = page_response [invoice_456] (Some (PStr (str ''T2'')))
   \<and> http paged_surrogate_env
        [query_request test_globals, more_request test_globals surrogate_token]
        (more_request test_globals (PStr (str ''T2'')))
       = page_response [orders_789] None
   \<and> get_all_components paged_surrogate_env test_globals empty_world
       = Some (Raised UnicodeEncodeError
           (say (Retrieved 1) (send (query_request test_globals)
              (say Fetching_metadata empty_world))))
   \<and> sent (say (Retrieved 1) (send (query_request test_globals)
              (say Fetching_metadata empty_world))) = [query_request test_globals]"
proof -
  have h: "http paged_surrogate_env (sent empty_world) (query_request test_globals)
       = Response \<lparr>r_text = [], r_json = \<lparr>p_result = Some [invoice_123],
            p_queryToken = Some surrogate_token\<rparr>\<rparr>"
    by (simp add: paged_surrogate_env_def page_response_def empty_world_def)
  have "get_all_components paged_surrogate_env test_globals empty_world
       = Some (Raised UnicodeEncodeError
           (say (Retrieved 1) (send (query_request test_globals)
              (say Fetching_metadata empty_world))))"
    by (simp add: get_all_components_first_page [OF h] dict_get_def query_more_unencodable
        surrogate_token_def encodable_def surrogate_def)
  then show ?thesis
    by (simp add: paged_surrogate_env_def page_response_def empty_world_def surrogate_token_def)
qed


text \<open>
  Claim C3 at a failing input. The API answers the query with one record and the token
  \<open>T\<close> followed by a lone surrogate, and would answer the continuation request with
  status 500. The claim gives the first page as the result and no exception. The driver
  ends in \<open>UnicodeEncodeError\<close> after one request, and the first page is lost with it.
\<close>

theorem surrogate_token_page_lost:
  "http broken_surrogate_env [] (query_request test_globals)
       = page_response [invoice_123] (Some surrogate_token)
   \<and> truthy surrogate_token
   \<and> http broken_surrogate_env [query_request test_globals]
        (more_request test_globals surrogate_token)
       = HTTPError (str ''500 Server Error'') (str ''oops'')
   \<and> get_all_components broken_surrogate_env test_globals empty_world
       = Some (Raised UnicodeEncodeError
           (say (Retrieved 1) (send (query_request test_globals)
              (say Fetching_metadata empty_world))))
   \<and> sent (say (Retrieved 1) (send (query_request test_globals)
              (say Fetching_metadata empty_world))) = [query_request test_globals]"
proof -
  have h: "http broken_surrogate_env (sent empty_world) (query_request test_globals)
       = Response \<lparr>r_text = [], r_json = \<lparr>p_result = Some [invoice_123],
            p_queryToken = Some surrogate_token\<rparr>\<rparr>"
    by (simp add: broken_surrogate_env_def page_response_def empty_world_def)
  have "get_all_components broken_surrogate_env test_globals empty_world
       = Some (Raised UnicodeEncodeError
           (say (Retrieved 1) (send (query_request test_globals)
              (say Fetching_metadata empty_world))))"
    by (simp add: get_all_components_first_page [OF h] dict_get_def query_more_unencodable
        surrogate_token_def encodable_def surrogate_def)
  then show ?thesis
    by (simp add: broken_surrogate_env_def page_response_def empty_world_def surrogate_token_def)
qed

section \<open>Strings that can be printed\<close>

lemma encodable_iff: "encodable s = (\<forall>c\<in>set s. \<not> surrogate c)"
  by (simp add: encodable_def list_all_iff)

lemma encodable_str [simp]: "encodable (str s)"
proof -
  have "\<And>c::char. (of_char c :: nat) < 256"
    by (metis of_char_mod_256 mod_less_divisor zero_less_numeral)
  then have "\<not> surrogate (of_char c)" for c :: char
    using order_less_trans [of "of_char c :: nat" 256 55296] by (simp add: surrogate_def)
  then show ?thesis
    by (auto simp: encodable_iff str_def)
qed

lemma encodable_sanitize_str: "encodable s \<Longrightarrow> encodable (sanitize_str ua s)"
proof -
  have "set (sanitize_str ua s) \<subseteq> insert 95 (set s)"
    using set_rstrip [of "map (sanitize_char ua) s"]
    by (auto simp: sanitize_str_def sanitize_char_def)
  then show "encodable s \<Longrightarrow> encodable (sanitize_str ua s)"
    by (auto simp: encodable_iff surrogate_def)
qed

lemma encodable_path_join: "encodable a \<Longrightarrow> encodable b \<Longrightarrow> encodable (path_join a b)"
  by (auto simp: path_join_def os_sep_def encodable_iff surrogate_def)

lemma encodable_local_folder_path:
  "encodable f \<Longrightarrow> encodable (local_folder_path ua f)"
proof -
  assume "encodable f"
  then have "encodable (sanitize_str ua f)" by (rule encodable_sanitize_str)
  then have "encodable (replace_char 47 os_sep (sanitize_str ua f))"
    by (auto simp: replace_char_def os_sep_def encodable_iff surrogate_def)
  then show ?thesis
    by (simp add: local_folder_path_def EXPORT_DIRECTORY_def encodable_path_join)
qed

lemma encodable_file_path:
  "encodable f \<Longrightarrow> encodable nm \<Longrightarrow> encodable (py_str v) \<Longrightarrow> encodable (py_str cid) \<Longrightarrow>
   encodable (file_path ua f nm v cid)"
  by (simp add: file_path_def file_name_def encodable_path_join encodable_local_folder_path
      encodable_sanitize_str)


section \<open>The loop body, case by case\<close>

lemma announces_encodable:
  assumes "announces c"
  shows "encodable (py_str (dict_get_default (m_name c) (PStr (str ''Unnamed Component''))))"
    and "encodable (py_str (dict_get (m_version c)))"
    and "encodable (py_str (dict_get (m_componentId c)))"
    and "encodable (py_str (dict_get (m_type c)))"
    and "encodable (py_str (dict_get_default (m_folderName c) (PStr (str ''No Folder''))))"
  using assms by (simp_all add: announces_def)

lemma announced_fields [simp]:
  "sent (announced n i c w) = sent w" "dirs (announced n i c w) = dirs w"
  "files (announced n i c w) = files w"
  by (simp_all add: announced_def)

lemma path_exists_announced [simp]: "path_exists e (announced n i c w) p = path_exists e w p"
  by (simp add: path_exists_def)

lemma with_directory_fields [simp]:
  "sent (with_directory e dir w) = sent w" "files (with_directory e dir w) = files w"
  "out (with_directory e dir w) = out w"
  by (simp_all add: with_directory_def)

lemma export_component_no_id:
  "\<not> truthy (dict_get (m_componentId c)) \<Longrightarrow>
   export_component e g n i c w =
     print_line (Skipping (i + 1) n
                   (dict_get_default (m_name c) (PStr (str ''Unnamed Component''))) c) w"
  by (simp add: export_component_def)

lemma export_component_unannounced:
  "truthy (dict_get (m_componentId c)) \<Longrightarrow> \<not> announces c \<Longrightarrow>
   raised (export_component e g n i c w)
   \<and> files (world_of (export_component e g n i c w)) = files w
   \<and> sent (world_of (export_component e g n i c w)) = sent w"
  by (auto simp: export_component_def announces_def Let_def print_line_def)

lemma export_component_folder_not_str:
  "truthy (dict_get (m_componentId c)) \<Longrightarrow> announces c \<Longrightarrow>
   sanitize_name (unicode_alnum e)
     (dict_get_default (m_folderName c) (PStr (str ''No Folder''))) = Inl x \<Longrightarrow>
   export_component e g n i c w = Raised x (announced n i c w)"
  by (simp add: export_component_def announced_def announces_def Let_def)

lemma export_component_mkdir_fails:
  assumes "truthy (dict_get (m_componentId c))" "announces c"
    and f: "dict_get_default (m_folderName c) (PStr (str ''No Folder'')) = PStr f"
    and "\<not> path_exists e w (local_folder_path (unicode_alnum e) f)"
    and "makedirs_error e (local_folder_path (unicode_alnum e) f) = Some err"
  shows "export_component e g n i c w =
     Finished (say (Mkdir_error (local_folder_path (unicode_alnum e) f) err) (announced n i c w))"
proof -
  from announces_encodable(5) [OF assms(2)] f have "encodable f" by simp
  then have "encodable (local_folder_path (unicode_alnum e) f)"
    by (rule encodable_local_folder_path)
  with assms show ?thesis
    by (simp add: export_component_def announced_def announces_def Let_def local_folder_path_def
        path_exists_def)
qed

lemma export_component_fetches:
  "truthy (dict_get (m_componentId c)) \<Longrightarrow> announces c \<Longrightarrow>
   dict_get_default (m_folderName c) (PStr (str ''No Folder'')) = PStr f \<Longrightarrow>
   path_exists e w (local_folder_path (unicode_alnum e) f)
     \<or> makedirs_error e (local_folder_path (unicode_alnum e) f) = None \<Longrightarrow>
   export_component e g n i c w =
     fetch_and_save e g (dict_get (m_componentId c))
       (dict_get_default (m_name c) (PStr (str ''Unnamed Component''))) (dict_get (m_version c))
       (local_folder_path (unicode_alnum e) f)
       (with_directory e (local_folder_path (unicode_alnum e) f) (announced n i c w))"
  by (auto simp: export_component_def announced_def announces_def Let_def local_folder_path_def
      path_exists_def with_directory_def)

lemma fetch_and_save_response:
  "truthy cid \<Longrightarrow> http e (sent w) (component_request g cid) = Response r \<Longrightarrow>
   fetch_and_save e g cid nm v dir w =
     (if r_text r \<noteq> [] then
        (case sanitize_name (unicode_alnum e) nm of
           Inl x \<Rightarrow> Raised x (send (component_request g cid) w)
         | Inr sanitized_name \<Rightarrow>
             write_file e (path_join dir (file_name sanitized_name v cid)) (r_text r)
               (send (component_request g cid) w))
      else print_line (Definition_failed cid) (send (component_request g cid) w))"
  by (simp add: fetch_and_save_def get_component_definition_def)

lemma fetch_and_save_http_error:
  "truthy cid \<Longrightarrow> encodable (py_str cid) \<Longrightarrow>
   http e (sent w) (component_request g cid) = HTTPError a b \<Longrightarrow>
   fetch_and_save e g cid nm v dir w =
     Finished (say (Definition_failed cid) (say (Component_http_error cid a)
                 (send (component_request g cid) w)))"
  by (simp add: fetch_and_save_def get_component_definition_def)

lemma fetch_and_save_request_error:
  "truthy cid \<Longrightarrow> encodable (py_str cid) \<Longrightarrow>
   http e (sent w) (component_request g cid) = RequestException a \<Longrightarrow>
   fetch_and_save e g cid nm v dir w =
     Finished (say (Definition_failed cid) (say (Component_request_error cid a)
                 (send (component_request g cid) w)))"
  by (simp add: fetch_and_save_def get_component_definition_def)

lemma fetch_and_save_other_exception:
  "truthy cid \<Longrightarrow> http e (sent w) (component_request g cid) = OtherException x \<Longrightarrow>
   fetch_and_save e g cid nm v dir w = Raised x (send (component_request g cid) w)"
  by (simp add: fetch_and_save_def get_component_definition_def)

text \<open>The loop runs its body on each record in turn.\<close>

lemma each_in_turn_from:
  "foldl (\<lambda>oc (k, c). and_then oc (\<lambda>u v. export_component e g n k c v)) oc
     (zip [i..<i + length cs] cs)
   = and_then oc (\<lambda>u v. export_loop e g n i cs v)"
proof (induction cs arbitrary: oc i)
  case Nil
  show ?case by (cases oc) simp_all
next
  case (Cons c cs)
  have "[i..<i + length (c # cs)] = i # [Suc i..<Suc i + length cs]"
    using upt_conv_Cons [of i "i + length (c # cs)"] by simp
  then show ?case
    using Cons [of "and_then oc (\<lambda>u v. export_component e g n i c v)" "Suc i"]
    by (cases oc) simp_all
qed

lemma export_loop_each_in_turn: "export_loop e g n i cs w = each_in_turn e g n i cs w"
  by (simp add: each_in_turn_def each_in_turn_from)

lemma export_loop_continues:
  "export_component e g n i c w = Finished w' \<Longrightarrow>
   export_loop e g n i (c # rest) w = each_in_turn e g n (Suc i) rest w'"
  by (simp add: export_loop_each_in_turn [symmetric])

lemma export_loop_aborts:
  "export_component e g n i c w = Raised x w' \<Longrightarrow>
   export_loop e g n i (c # rest) w = Raised x w'"
  by simp

text \<open>What the loop body does with an empty document.\<close>

lemma empty_document_world:
  assumes cid: "truthy (dict_get (m_componentId c))"
    and lines: "announces c"
    and folder: "dict_get_default (m_folderName c) (PStr (str ''No Folder'')) = PStr f"
    and dir: "path_exists e w (local_folder_path (unicode_alnum e) f)
            \<or> makedirs_error e (local_folder_path (unicode_alnum e) f) = None"
    and fetch: "http e (sent w) (component_request g (dict_get (m_componentId c))) = Response r"
    and empty: "r_text r = []"
  shows "export_component e g n i c w
           = Finished (say (Definition_failed (dict_get (m_componentId c)))
               (send (component_request g (dict_get (m_componentId c)))
                  (with_directory e (local_folder_path (unicode_alnum e) f) (announced n i c w))))
       \<and> files (world_of (export_component e g n i c w)) = files w
       \<and> export_loop e g n i (c # rest) w
           = each_in_turn e g n (Suc i) rest (world_of (export_component e g n i c w))"
proof -
  let ?wd = "with_directory e (local_folder_path (unicode_alnum e) f) (announced n i c w)"
  let ?w' = "say (Definition_failed (dict_get (m_componentId c)))
               (send (component_request g (dict_get (m_componentId c))) ?wd)"
  from fetch have "http e (sent ?wd) (component_request g (dict_get (m_componentId c))) = Response r"
    by simp
  with cid empty announces_encodable(3) [OF lines]
  have "fetch_and_save e g (dict_get (m_componentId c))
       (dict_get_default (m_name c) (PStr (str ''Unnamed Component''))) (dict_get (m_version c))
       (local_folder_path (unicode_alnum e) f) ?wd = Finished ?w'"
    by (simp add: fetch_and_save_response)
  with cid lines folder dir have ec: "export_component e g n i c w = Finished ?w'"
    by (simp add: export_component_fetches)
  from export_loop_continues [OF ec] ec show ?thesis by simp
qed

text \<open>Evaluating a concrete run.\<close>

lemma digits_small: "n < 10 \<Longrightarrow> digits n = [48 + n]"
  by (simp add: digits.simps)

lemmas run_eval = digits_small
  export_component_def fetch_and_save_def get_component_definition_def write_file_def
  component_request_def file_name_def path_join_def path_exists_def replace_char_def os_sep_def
  EXPORT_DIRECTORY_def dict_get_def dict_get_default_def Let_def print_line_def
  encodable_def surrogate_def posix_resolve_def made_by_makedirs_def

section \<open>Failures of one record\<close>

lemma write_file_not_written:
  assumes "0 \<notin> set p" "encodable p" "write_result e p c \<noteq> Written"
  shows "\<exists>w' err. write_file e p c w = Finished w' \<and> last (out w') = Write_error p err"
  using assms by (cases "write_result e p c") (simp_all add: write_file_def)

text \<open>
  What holds of the failures of one record, for a record whose lines can be printed and
  whose file path holds no NUL character: the loop body ends normally, and the loop goes
  on with the remaining records.
\<close>

lemma record_failure_not_fatal:
  fixes c :: meta and e :: env and g :: globals
  defines "cid \<equiv> dict_get (m_componentId c)"
    and "name \<equiv> dict_get_default (m_name c) (PStr (str ''Unnamed Component''))"
    and "folder \<equiv> dict_get_default (m_folderName c) (PStr (str ''No Folder''))"
    and "rq \<equiv> component_request g (dict_get (m_componentId c))"
  shows
    "(\<not> truthy cid \<and> encodable (py_str name) \<longrightarrow>
        export_component e g n i c w = Finished (say (Skipping (i + 1) n name c) w))
     \<and> (\<forall>f err. truthy cid \<and> announces c \<and> folder = PStr f
           \<and> \<not> path_exists e w (local_folder_path (unicode_alnum e) f)
           \<and> makedirs_error e (local_folder_path (unicode_alnum e) f) = Some err \<longrightarrow>
        export_component e g n i c w
          = Finished (say (Mkdir_error (local_folder_path (unicode_alnum e) f) err)
                        (announced n i c w)))
     \<and> (\<forall>f a b. truthy cid \<and> announces c \<and> folder = PStr f
           \<and> (path_exists e w (local_folder_path (unicode_alnum e) f)
                \<or> makedirs_error e (local_folder_path (unicode_alnum e) f) = None)
           \<and> (http e (sent w) rq = HTTPError a b \<or> http e (sent w) rq = RequestException a) \<longrightarrow>
        (\<exists>w'. export_component e g n i c w = Finished w' \<and> files w' = files w
              \<and> last (out w') = Definition_failed cid))
     \<and> (\<forall>f r nm. truthy cid \<and> announces c \<and> folder = PStr f
           \<and> (path_exists e w (local_folder_path (unicode_alnum e) f)
                \<or> makedirs_error e (local_folder_path (unicode_alnum e) f) = None)
           \<and> http e (sent w) rq = Response r \<and> r_text r \<noteq> [] \<and> name = PStr nm
           \<and> 0 \<notin> set (file_path (unicode_alnum e) f nm (dict_get (m_version c)) cid)
           \<and> write_result e (file_path (unicode_alnum e) f nm (dict_get (m_version c)) cid)
                (r_text r) \<noteq> Written \<longrightarrow>
        (\<exists>w' err. export_component e g n i c w = Finished w'
              \<and> last (out w')
                  = Write_error (file_path (unicode_alnum e) f nm (dict_get (m_version c)) cid) err))
     \<and> (\<forall>w'. export_component e g n i c w = Finished w' \<longrightarrow>
           export_loop e g n i (c # rest) w = each_in_turn e g n (Suc i) rest w')"
proof (intro conjI allI impI)
  assume "\<not> truthy cid \<and> encodable (py_str name)"
  then show "export_component e g n i c w = Finished (say (Skipping (i + 1) n name c) w)"
    unfolding cid_def name_def by (simp add: export_component_no_id)
next
  fix f err
  assume "truthy cid \<and> announces c \<and> folder = PStr f
           \<and> \<not> path_exists e w (local_folder_path (unicode_alnum e) f)
           \<and> makedirs_error e (local_folder_path (unicode_alnum e) f) = Some err"
  then show "export_component e g n i c w
          = Finished (say (Mkdir_error (local_folder_path (unicode_alnum e) f) err)
                        (announced n i c w))"
    unfolding cid_def folder_def by (simp add: export_component_mkdir_fails)
next
  fix f a b
  let ?wd = "with_directory e (local_folder_path (unicode_alnum e) f) (announced n i c w)"
  assume h: "truthy cid \<and> announces c \<and> folder = PStr f
           \<and> (path_exists e w (local_folder_path (unicode_alnum e) f)
                \<or> makedirs_error e (local_folder_path (unicode_alnum e) f) = None)
           \<and> (http e (sent w) rq = HTTPError a b \<or> http e (sent w) rq = RequestException a)"
  then have ec: "export_component e g n i c w =
     fetch_and_save e g cid name (dict_get (m_version c)) (local_folder_path (unicode_alnum e) f) ?wd"
    unfolding cid_def folder_def name_def by (simp add: export_component_fetches)
  from h have enc: "encodable (py_str cid)"
    unfolding cid_def by (simp add: announces_encodable)
  from h have "http e (sent ?wd) (component_request g cid) = HTTPError a b
             \<or> http e (sent ?wd) (component_request g cid) = RequestException a"
    unfolding rq_def cid_def by simp
  with h enc show "\<exists>w'. export_component e g n i c w = Finished w' \<and> files w' = files w
              \<and> last (out w') = Definition_failed cid"
    unfolding ec by (auto simp: fetch_and_save_http_error fetch_and_save_request_error)
next
  fix f r nm
  let ?wd = "with_directory e (local_folder_path (unicode_alnum e) f) (announced n i c w)"
  let ?p = "file_path (unicode_alnum e) f nm (dict_get (m_version c)) cid"
  assume h: "truthy cid \<and> announces c \<and> folder = PStr f
           \<and> (path_exists e w (local_folder_path (unicode_alnum e) f)
                \<or> makedirs_error e (local_folder_path (unicode_alnum e) f) = None)
           \<and> http e (sent w) rq = Response r \<and> r_text r \<noteq> [] \<and> name = PStr nm
           \<and> 0 \<notin> set ?p \<and> write_result e ?p (r_text r) \<noteq> Written"
  then have ec: "export_component e g n i c w =
     fetch_and_save e g cid name (dict_get (m_version c)) (local_folder_path (unicode_alnum e) f) ?wd"
    unfolding cid_def folder_def name_def by (simp add: export_component_fetches)
  from h have "http e (sent ?wd) (component_request g cid) = Response r"
    unfolding rq_def cid_def by simp
  with h have fs: "fetch_and_save e g cid name (dict_get (m_version c))
        (local_folder_path (unicode_alnum e) f) ?wd
      = write_file e ?p (r_text r) (send (component_request g cid) ?wd)"
    by (simp add: fetch_and_save_response file_path_def)
  from h have "announces c" "folder = PStr f" "name = PStr nm" by simp_all
  with announces_encodable [of c] have "encodable ?p"
    unfolding cid_def folder_def name_def by (simp add: encodable_file_path)
  with h show "\<exists>w' err. export_component e g n i c w = Finished w'
              \<and> last (out w') = Write_error ?p err"
    unfolding ec fs using write_file_not_written by blast
next
  fix w'
  assume "export_component e g n i c w = Finished w'"
  then show "export_loop e g n i (c # rest) w = each_in_turn e g n (Suc i) rest w'"
    by (rule export_loop_continues)
qed

text \<open>
  Claim C6 at two failing inputs, each a list of two records against an API that serves
  every document. A record without an id whose name ends in a lone surrogate: the skip
  line cannot be printed, the loop ends in \<open>UnicodeEncodeError\<close> at the first record
  and the second record is never reached. A record whose version holds a NUL character:
  its document is fetched, \<open>open\<close> raises \<open>ValueError\<close>, which \<open>except IOError\<close>
  does not catch, and the second record is never reached either. For comparison, after a
  record without an id whose name can be printed, the second record's file is written.
\<close>

theorem unprintable_name_stops_the_run:
  "m_componentId surrogate_orphan = None
   \<and> export_loop serving_env test_globals 2 0 [surrogate_orphan, invoice_456] empty_world
       = Raised UnicodeEncodeError empty_world
   \<and> http serving_env [] (component_request test_globals (PStr (str ''123'')))
       = document_response (str ''<Component/>'')
   \<and> exception_of (export_loop serving_env test_globals 2 0 [nul_version_record, invoice_456]
                     empty_world) = Some ValueError
   \<and> files (world_of (export_loop serving_env test_globals 2 0
                         [nul_version_record, invoice_456] empty_world)) = Map.empty
   \<and> dom (files (world_of (export_loop serving_env test_globals 2 0
                              [orphan, invoice_456] empty_world)))
       = {str ''boomi_export/Finance/Invoice Map_v1_456.xml''}"
  by (simp add: run_eval surrogate_orphan_def nul_version_record_def orphan_def invoice_456_def
      serving_env_def document_response_def empty_world_def sanitizer_eval say_def send_def)

section \<open>An empty document\<close>

text \<open>
  The loop body requests a document only for a record that has an id, whose two opening
  lines were printed, whose folder name is a string and whose directory is there or
  could be made.
\<close>

lemma export_component_requests:
  assumes "sent (world_of (export_component e g n i c w)) \<noteq> sent w"
  shows "truthy (dict_get (m_componentId c)) \<and> announces c
       \<and> (\<exists>f. dict_get_default (m_folderName c) (PStr (str ''No Folder'')) = PStr f
              \<and> (path_exists e w (local_folder_path (unicode_alnum e) f)
                   \<or> makedirs_error e (local_folder_path (unicode_alnum e) f) = None))"
proof -
  have cid: "truthy (dict_get (m_componentId c))"
  proof (rule ccontr)
    assume "\<not> ?thesis"
    with assms show False by (simp add: export_component_no_id)
  qed
  have lines: "announces c"
    using assms cid export_component_unannounced [of c e g n i w] by auto
  obtain f where f: "dict_get_default (m_folderName c) (PStr (str ''No Folder'')) = PStr f"
  proof (cases "dict_get_default (m_folderName c) (PStr (str ''No Folder''))")
    case (PStr f)
    then show ?thesis using that by simp
  qed (use assms cid lines in \<open>simp_all add: export_component_folder_not_str\<close>)
  have "path_exists e w (local_folder_path (unicode_alnum e) f)
          \<or> makedirs_error e (local_folder_path (unicode_alnum e) f) = None"
  proof (rule ccontr)
    assume "\<not> ?thesis"
    then obtain err where "\<not> path_exists e w (local_folder_path (unicode_alnum e) f)"
      "makedirs_error e (local_folder_path (unicode_alnum e) f) = Some err" by auto
    with cid lines f assms show False
      by (simp add: export_component_mkdir_fails)
  qed
  with cid lines f show ?thesis by blast
qed

text \<open>
  Claim C10. For every record whose document is requested and whose request is answered
  with an empty body, the loop body ends as for a failed fetch: it has sent the one
  request, its last line is the failure line \<open>Failed to retrieve definition\<close>, no file
  is written and nothing is raised; and the run of the loop is then the body run on each
  of the remaining records in turn.
\<close>

theorem empty_document_skipped:
  assumes requested: "sent (world_of (export_component e g n i c w)) \<noteq> sent w"
    and fetch: "http e (sent w) (component_request g (dict_get (m_componentId c))) = Response r"
    and empty: "r_text r = []"
  shows "\<exists>w'. export_component e g n i c w = Finished w'
            \<and> files w' = files w
            \<and> sent w' = sent w @ [component_request g (dict_get (m_componentId c))]
            \<and> last (out w') = Definition_failed (dict_get (m_componentId c))
            \<and> export_loop e g n i (c # rest) w = each_in_turn e g n (Suc i) rest w'"
proof -
  from export_component_requests [OF requested]
  obtain f where cid: "truthy (dict_get (m_componentId c))" and lines: "announces c"
    and folder: "dict_get_default (m_folderName c) (PStr (str ''No Folder'')) = PStr f"
    and dir: "path_exists e w (local_folder_path (unicode_alnum e) f)
            \<or> makedirs_error e (local_folder_path (unicode_alnum e) f) = None"
    by blast
  note ec = empty_document_world [OF cid lines folder dir fetch empty, of n i rest,
      THEN conjunct1]
  from export_loop_continues [OF ec] ec show ?thesis by simp
qed

text \<open>
  The theorem at two records, the first of which gets an empty body: only the second
  record's file is on disk afterwards.
\<close>

theorem empty_document_skipped_witness:
  "\<exists>w'. export_loop empty_first_env test_globals 2 0 [invoice_123, invoice_456] empty_world
          = Finished w'
        \<and> dom (files w') = {str ''boomi_export/Finance/Invoice Map_v1_456.xml''}"
proof -
  have requested: "sent (world_of (export_component empty_first_env test_globals 2 0 invoice_123
                       empty_world)) \<noteq> sent empty_world"
    by (simp add: run_eval invoice_123_def empty_first_env_def document_response_def
        empty_world_def sanitizer_eval say_def send_def)
  have fetch: "http empty_first_env (sent empty_world)
                 (component_request test_globals (dict_get (m_componentId invoice_123)))
               = Response \<lparr>r_text = [], r_json = \<lparr>p_result = None, p_queryToken = None\<rparr>\<rparr>"
    by (simp add: empty_first_env_def document_response_def empty_world_def)
  have empty: "r_text \<lparr>r_text = [], r_json = \<lparr>p_result = None, p_queryToken = None\<rparr>\<rparr> = []"
    by simp
  from empty_document_skipped [OF requested fetch empty, of "[invoice_456]"]
  have "export_loop empty_first_env test_globals 2 0 (invoice_123 # [invoice_456]) empty_world
      = each_in_turn empty_first_env test_globals 2 (Suc 0) [invoice_456]
          (world_of (export_component empty_first_env test_globals 2 0 invoice_123 empty_world))"
    by auto
  then show ?thesis
    unfolding export_loop_each_in_turn [symmetric]
    by (simp add: run_eval invoice_123_def invoice_456_def empty_first_env_def
        document_response_def empty_world_def sanitizer_eval say_def send_def)
qed

section \<open>Attributes that are not strings\<close>

lemma main_raises:
  assumes "env_truthy (BOOMI_ACCOUNT_ID g)" "env_truthy (BOOMI_USERNAME g)"
      "env_truthy (BOOMI_API_TOKEN g)"
    and "path_exists e w EXPORT_DIRECTORY \<or> makedirs_error e EXPORT_DIRECTORY = None"
    and "get_all_components e (with_base_url g) (root_ready e w) = Some (Done cs w2)"
    and "export_loop e (with_base_url g) (length cs) 0 cs (say Starting_export w2) = Raised x w3"
  shows "main e g w = Some (Raised x w3)"
proof -
  from assms(6) have "cs \<noteq> []" by auto
  with assms show ?thesis by (simp add: main_after_checks)
qed

text \<open>
  Claim C9, as amended. \<open>sanitize_name\<close> raises \<open>TypeError\<close> on \<open>None\<close>, on a
  boolean and on an integer. A record whose id is missing or falsy and whose skip line can
  be printed is skipped, whatever its name and folder name, and the loop goes on with the
  remaining records. For a record with a truthy id whose two opening lines can be printed:
  when its \<open>folderName\<close> is present with the value \<open>null\<close>, the loop ends in
  \<open>TypeError\<close> at this record, whatever records follow; when its folder name is a
  string or absent and its \<open>name\<close> is present with the value \<open>null\<close>, the loop goes on with
  the remaining records if the directory cannot be made, it ends in \<open>TypeError\<close> at
  this record if the directory is there or can be made and the fetch returns a body that
  is not empty, and it goes on with the remaining records, no file written, if the fetch
  returns an empty body or fails with an HTTP or transport error. And when the loop ends
  in an exception, so does \<open>main\<close>.
\<close>

theorem null_attribute_raises:
  fixes c :: meta and e :: env and g :: globals
  defines "cid \<equiv> dict_get (m_componentId c)"
    and "name \<equiv> dict_get_default (m_name c) (PStr (str ''Unnamed Component''))"
    and "folder \<equiv> dict_get_default (m_folderName c) (PStr (str ''No Folder''))"
    and "rq \<equiv> component_request g (dict_get (m_componentId c))"
  shows
    "(sanitize_name ua PNone = Inl TypeError \<and> sanitize_name ua (PBool b) = Inl TypeError
        \<and> sanitize_name ua (PInt k) = Inl TypeError)
     \<and> (\<not> truthy cid \<and> encodable (py_str name) \<longrightarrow>
          export_loop e g n i (c # rest) w
            = each_in_turn e g n (Suc i) rest (say (Skipping (i + 1) n name c) w))
     \<and> (truthy cid \<and> announces c \<and> m_folderName c = Some PNone \<longrightarrow>
          export_loop e g n i (c # rest) w = Raised TypeError (announced n i c w))
     \<and> (\<forall>f err. truthy cid \<and> announces c \<and> folder = PStr f \<and> m_name c = Some PNone
           \<and> \<not> path_exists e w (local_folder_path (unicode_alnum e) f)
           \<and> makedirs_error e (local_folder_path (unicode_alnum e) f) = Some err \<longrightarrow>
          export_loop e g n i (c # rest) w
            = each_in_turn e g n (Suc i) rest
                (say (Mkdir_error (local_folder_path (unicode_alnum e) f) err)
                   (announced n i c w)))
     \<and> (\<forall>f r. truthy cid \<and> announces c \<and> folder = PStr f \<and> m_name c = Some PNone
           \<and> (path_exists e w (local_folder_path (unicode_alnum e) f)
                \<or> makedirs_error e (local_folder_path (unicode_alnum e) f) = None)
           \<and> http e (sent w) rq = Response r \<and> r_text r \<noteq> [] \<longrightarrow>
          export_loop e g n i (c # rest) w
            = Raised TypeError
                (send rq (with_directory e (local_folder_path (unicode_alnum e) f)
                            (announced n i c w))))
     \<and> (\<forall>f r a b. truthy cid \<and> announces c \<and> folder = PStr f \<and> m_name c = Some PNone
           \<and> (path_exists e w (local_folder_path (unicode_alnum e) f)
                \<or> makedirs_error e (local_folder_path (unicode_alnum e) f) = None)
           \<and> (http e (sent w) rq = Response r \<and> r_text r = []
                \<or> http e (sent w) rq = HTTPError a b
                \<or> http e (sent w) rq = RequestException a) \<longrightarrow>
          (\<exists>w'. export_component e g n i c w = Finished w' \<and> files w' = files w
                \<and> export_loop e g n i (c # rest) w = each_in_turn e g n (Suc i) rest w'))
     \<and> (\<forall>h v cs v2 x v3. env_truthy (BOOMI_ACCOUNT_ID h) \<and> env_truthy (BOOMI_USERNAME h)
           \<and> env_truthy (BOOMI_API_TOKEN h)
           \<and> (path_exists e v EXPORT_DIRECTORY \<or> makedirs_error e EXPORT_DIRECTORY = None)
           \<and> get_all_components e (with_base_url h) (root_ready e v) = Some (Done cs v2)
           \<and> export_loop e (with_base_url h) (length cs) 0 cs (say Starting_export v2)
               = Raised x v3 \<longrightarrow>
          main e h v = Some (Raised x v3))"
proof (intro conjI allI impI)
  show "sanitize_name ua PNone = Inl TypeError" "sanitize_name ua (PBool b) = Inl TypeError"
    "sanitize_name ua (PInt k) = Inl TypeError" by simp_all
next
  assume "\<not> truthy cid \<and> encodable (py_str name)"
  then have "export_component e g n i c w = Finished (say (Skipping (i + 1) n name c) w)"
    unfolding cid_def name_def by (simp add: export_component_no_id)
  then show "export_loop e g n i (c # rest) w
            = each_in_turn e g n (Suc i) rest (say (Skipping (i + 1) n name c) w)"
    by (rule export_loop_continues)
next
  assume h: "truthy cid \<and> announces c \<and> m_folderName c = Some PNone"
  then have "sanitize_name (unicode_alnum e)
     (dict_get_default (m_folderName c) (PStr (str ''No Folder''))) = Inl TypeError"
    by (simp add: dict_get_default_def)
  with h have "export_component e g n i c w = Raised TypeError (announced n i c w)"
    unfolding cid_def by (simp add: export_component_folder_not_str)
  then show "export_loop e g n i (c # rest) w = Raised TypeError (announced n i c w)"
    by simp
next
  fix f err
  assume "truthy cid \<and> announces c \<and> folder = PStr f \<and> m_name c = Some PNone
           \<and> \<not> path_exists e w (local_folder_path (unicode_alnum e) f)
           \<and> makedirs_error e (local_folder_path (unicode_alnum e) f) = Some err"
  then have "export_component e g n i c w
      = Finished (say (Mkdir_error (local_folder_path (unicode_alnum e) f) err)
                    (announced n i c w))"
    unfolding cid_def folder_def by (simp add: export_component_mkdir_fails)
  then show "export_loop e g n i (c # rest) w
            = each_in_turn e g n (Suc i) rest
                (say (Mkdir_error (local_folder_path (unicode_alnum e) f) err)
                   (announced n i c w))"
    by (rule export_loop_continues)
next
  fix f r
  let ?wd = "with_directory e (local_folder_path (unicode_alnum e) f) (announced n i c w)"
  assume h: "truthy cid \<and> announces c \<and> folder = PStr f \<and> m_name c = Some PNone
           \<and> (path_exists e w (local_folder_path (unicode_alnum e) f)
                \<or> makedirs_error e (local_folder_path (unicode_alnum e) f) = None)
           \<and> http e (sent w) rq = Response r \<and> r_text r \<noteq> []"
  then have ec: "export_component e g n i c w =
     fetch_and_save e g cid (dict_get_default (m_name c) (PStr (str ''Unnamed Component'')))
       (dict_get (m_version c)) (local_folder_path (unicode_alnum e) f) ?wd"
    unfolding cid_def folder_def by (simp add: export_component_fetches)
  from h have "http e (sent ?wd) (component_request g cid) = Response r"
    unfolding rq_def cid_def by simp
  with h have "export_component e g n i c w = Raised TypeError (send rq ?wd)"
    unfolding ec by (simp add: fetch_and_save_response dict_get_default_def rq_def cid_def)
  then show "export_loop e g n i (c # rest) w = Raised TypeError (send rq ?wd)"
    by simp
next
  fix f r a b
  let ?wd = "with_directory e (local_folder_path (unicode_alnum e) f) (announced n i c w)"
  assume h: "truthy cid \<and> announces c \<and> folder = PStr f \<and> m_name c = Some PNone
           \<and> (path_exists e w (local_folder_path (unicode_alnum e) f)
                \<or> makedirs_error e (local_folder_path (unicode_alnum e) f) = None)
           \<and> (http e (sent w) rq = Response r \<and> r_text r = []
                \<or> http e (sent w) rq = HTTPError a b
                \<or> http e (sent w) rq = RequestException a)"
  then have ec: "export_component e g n i c w =
     fetch_and_save e g cid (dict_get_default (m_name c) (PStr (str ''Unnamed Component'')))
       (dict_get (m_version c)) (local_folder_path (unicode_alnum e) f) ?wd"
    unfolding cid_def folder_def by (simp add: export_component_fetches)
  from h have enc: "encodable (py_str cid)"
    unfolding cid_def by (simp add: announces_encodable)
  from h have "http e (sent ?wd) (component_request g cid) = Response r \<and> r_text r = []
             \<or> http e (sent ?wd) (component_request g cid) = HTTPError a b
             \<or> http e (sent ?wd) (component_request g cid) = RequestException a"
    unfolding rq_def cid_def by simp
  with h enc have "\<exists>w'. export_component e g n i c w = Finished w' \<and> files w' = files w"
    unfolding ec
    by (auto simp: fetch_and_save_response fetch_and_save_http_error fetch_and_save_request_error)
  then obtain w' where w': "export_component e g n i c w = Finished w'" "files w' = files w"
    by blast
  from export_loop_continues [OF w'(1)] w'
  show "\<exists>w'. export_component e g n i c w = Finished w' \<and> files w' = files w
            \<and> export_loop e g n i (c # rest) w = each_in_turn e g n (Suc i) rest w'"
    by blast
next
  fix h v cs v2 x v3
  assume "env_truthy (BOOMI_ACCOUNT_ID h) \<and> env_truthy (BOOMI_USERNAME h)
           \<and> env_truthy (BOOMI_API_TOKEN h)
           \<and> (path_exists e v EXPORT_DIRECTORY \<or> makedirs_error e EXPORT_DIRECTORY = None)
           \<and> get_all_components e (with_base_url h) (root_ready e v) = Some (Done cs v2)
           \<and> export_loop e (with_base_url h) (length cs) 0 cs (say Starting_export v2)
               = Raised x v3"
  then show "main e h v = Some (Raised x v3)"
    using main_raises by blast
qed

text \<open>
  The theorem at a record with a \<open>null\<close> folder name and at a record with a
  \<open>null\<close> name, each followed by a second record, against an API that serves every
  document: both runs end in \<open>TypeError\<close> and the second record's file is not
  written; and at the record with the \<open>null\<close> name against an API that refuses every
  request: nothing is raised.
\<close>

theorem null_attribute_raises_witness:
  "export_loop serving_env test_globals 2 0 [null_folder_456, invoice_123] empty_world
     = Raised TypeError (announced 2 0 null_folder_456 empty_world)
   \<and> exception_of (export_loop serving_env test_globals 2 0 [null_name_123, invoice_456]
                     empty_world) = Some TypeError
   \<and> files (world_of (export_loop serving_env test_globals 2 0 [null_name_123, invoice_456]
                         empty_world)) = Map.empty
   \<and> \<not> raised (export_component offline_env test_globals 2 0 null_name_123 empty_world)"
proof -
  note t = null_attribute_raises [where e = serving_env and g = test_globals and n = 2 and i = 0
      and w = empty_world]
  have a: "export_loop serving_env test_globals 2 0 (null_folder_456 # [invoice_123]) empty_world
     = Raised TypeError (announced 2 0 null_folder_456 empty_world)"
    using t [where c = null_folder_456 and rest = "[invoice_123]", THEN conjunct2,
        THEN conjunct2, THEN conjunct1]
    by (simp add: null_folder_456_def dict_get_def dict_get_default_def announces_def str_def
        encodable_def surrogate_def digits_small)
  have "local_folder_path (unicode_alnum serving_env) (str ''Finance'') = str ''boomi_export/Finance''"
    by (simp add: local_folder_path_def run_eval sanitizer_eval serving_env_def)
  then have b: "export_loop serving_env test_globals 2 0 (null_name_123 # [invoice_456]) empty_world
     = Raised TypeError
         (send (component_request test_globals (dict_get (m_componentId null_name_123)))
            (with_directory serving_env (str ''boomi_export/Finance'')
               (announced 2 0 null_name_123 empty_world)))"
    using t [where c = null_name_123 and rest = "[invoice_456]", THEN conjunct2, THEN conjunct2,
        THEN conjunct2, THEN conjunct2, THEN conjunct1, rule_format, where f = "str ''Finance''"
          and r = "\<lparr>r_text = str ''<Component/>'', r_json = \<lparr>p_result = None, p_queryToken = None\<rparr>\<rparr>"]
    by (simp add: null_name_123_def dict_get_def dict_get_default_def str_def serving_env_def
        document_response_def announces_def encodable_def surrogate_def digits_small)
  have "\<exists>w'. export_component offline_env test_globals 2 0 null_name_123 empty_world = Finished w'
           \<and> files w' = files empty_world
           \<and> export_loop offline_env test_globals 2 0 (null_name_123 # [invoice_456]) empty_world
               = each_in_turn offline_env test_globals 2 (Suc 0) [invoice_456] w'"
    using null_attribute_raises [where e = offline_env and g = test_globals and n = 2 and i = 0
        and w = empty_world and c = null_name_123 and rest = "[invoice_456]", THEN conjunct2,
        THEN conjunct2, THEN conjunct2, THEN conjunct2, THEN conjunct2, THEN conjunct1,
        rule_format, where f = "str ''Finance''" and a = "str ''offline''"]
    by (simp add: null_name_123_def dict_get_def dict_get_default_def str_def offline_env_def
        announces_def encodable_def surrogate_def digits_small)
  then have c: "\<not> raised (export_component offline_env test_globals 2 0 null_name_123 empty_world)"
    by auto
  from a b c show ?thesis by (simp add: empty_world_def)
qed

text \<open>
  Claim C9 as stated fails. A record with a \<open>null\<close> name whose fetch fails is
  reported as a failed fetch, and a record with a \<open>null\<close> folder name and no id is
  skipped; in both runs nothing is raised, and in the second the next record is exported.
\<close>

theorem null_attribute_counterexample:
  "m_name null_name_123 = Some PNone
   \<and> \<not> raised (export_loop offline_env test_globals 2 0 [null_name_123, invoice_456] empty_world)
   \<and> m_folderName null_folder_orphan = Some PNone
   \<and> \<not> raised (export_loop serving_env test_globals 2 0 [null_folder_orphan, invoice_456]
                  empty_world)
   \<and> dom (files (world_of (export_loop serving_env test_globals 2 0
                             [null_folder_orphan, invoice_456] empty_world)))
       = {str ''boomi_export/Finance/Invoice Map_v1_456.xml''}"
  by (simp add: run_eval null_name_123_def null_folder_orphan_def invoice_456_def serving_env_def
      offline_env_def document_response_def empty_world_def sanitizer_eval say_def send_def)


section \<open>The paths of the exported files\<close>

text \<open>
  Claim C1 at a failing input. The records \<open>Map_v2\<close>, version 1, id \<open>x\<close> and
  \<open>Map\<close>, version 2, id \<open>v1_x\<close> of one folder differ in id and in version. The claim
  gives them two file paths. The source computes the same path for both, and exported one
  after the other, with nothing raised, the second document replaces the first.
\<close>

theorem two_ids_one_path:
  "dict_get (m_componentId map_v2_x) \<noteq> dict_get (m_componentId map_v1_x)
   \<and> dict_get (m_version map_v2_x) \<noteq> dict_get (m_version map_v1_x)
   \<and> file_path ascii_only (str ''Finance'') (str ''Map_v2'') (PInt 1) (PStr (str ''x''))
       = str ''boomi_export/Finance/Map_v2_v1_x.xml''
   \<and> file_path ascii_only (str ''Finance'') (str ''Map'') (PInt 2) (PStr (str ''v1_x''))
       = str ''boomi_export/Finance/Map_v2_v1_x.xml''
   \<and> \<not> raised (export_loop two_documents_env test_globals 2 0 [map_v2_x, map_v1_x] empty_world)
   \<and> files (world_of (export_loop two_documents_env test_globals 2 0 [map_v2_x, map_v1_x]
                         empty_world))
       = [str ''boomi_export/Finance/Map_v2_v1_x.xml'' \<mapsto> str ''<B/>'']"
  by (simp add: run_eval file_path_def local_folder_path_def map_v2_x_def map_v1_x_def
      two_documents_env_def document_response_def empty_world_def sanitizer_eval say_def send_def)

end
